theory Spec2Isabelle
  imports Main "HOL-Library.Sublist" "HOL-Library.AList"
begin

section \<open>Python text primitives\<close>

text \<open>
  A Python \<^verbatim>\<open>str\<close> is modelled as a \<^typ>\<open>string\<close>; a \<^typ>\<open>char\<close> stands for the code
  point of the same number, so the model covers texts over the code points below 256.
  The character classes below are Python's on that range: \<^verbatim>\<open>str.isspace\<close> (the class
  \<^verbatim>\<open>str.strip\<close> removes and the regular expression \<^verbatim>\<open>\s\<close> matches) and the class the
  regular expression \<^verbatim>\<open>\w\<close> matches.
\<close>

definition is_space :: "char \<Rightarrow> bool" where
  "is_space c = (of_char c \<in> set [9, 10, 11, 12, 13, 28, 29, 30, 31, 32, 133, 160 :: nat])"

definition is_word :: "char \<Rightarrow> bool" where
  "is_word c =
     (let n = (of_char c :: nat) in
      (48 \<le> n \<and> n \<le> 57) \<or> (65 \<le> n \<and> n \<le> 90) \<or> n = 95 \<or> (97 \<le> n \<and> n \<le> 122) \<or>
      n \<in> set [170, 178, 179, 181, 185, 186, 188, 189, 190] \<or>
      (192 \<le> n \<and> n \<le> 214) \<or> (216 \<le> n \<and> n \<le> 246) \<or> 248 \<le> n)"

definition nl :: char where
  "nl = CHR 0x0A"

definition lstrip :: "string \<Rightarrow> string" where
  "lstrip s = dropWhile is_space s"

definition rstrip :: "string \<Rightarrow> string" where
  "rstrip s = rev (dropWhile is_space (rev s))"

definition strip :: "string \<Rightarrow> string" where
  "strip s = lstrip (rstrip s)"

text \<open>\<^verbatim>\<open>s.split(sep)\<close> for a one-character separator: never the empty list.\<close>

fun split_char :: "char \<Rightarrow> string \<Rightarrow> string list" where
  "split_char sep [] = [[]]"
| "split_char sep (c # cs) =
     (if c = sep then [] # split_char sep cs
      else (case split_char sep cs of [] \<Rightarrow> [[c]] | l # ls \<Rightarrow> (c # l) # ls))"

definition startswith :: "string \<Rightarrow> string \<Rightarrow> bool" where
  "startswith s p = prefix p s"

definition endswith :: "string \<Rightarrow> string \<Rightarrow> bool" where
  "endswith s p = suffix p s"

text \<open>\<^verbatim>\<open>p in s\<close> on strings.\<close>

definition contains :: "string \<Rightarrow> string \<Rightarrow> bool" where
  "contains s p = sublist p s"

text \<open>\<^verbatim>\<open>s.lower()\<close> on the code points below 256.\<close>

definition lower_char :: "char \<Rightarrow> char" where
  "lower_char c =
     (let n = (of_char c :: nat) in
      if (65 \<le> n \<and> n \<le> 90) \<or> (192 \<le> n \<and> n \<le> 214) \<or> (216 \<le> n \<and> n \<le> 222)
      then char_of (n + 32) else c)"

definition lower :: "string \<Rightarrow> string" where
  "lower s = map lower_char s"

text \<open>\<^verbatim>\<open>str(n)\<close> for a natural number.\<close>

fun str_nat :: "nat \<Rightarrow> string" where
  "str_nat n = (if n < 10 then [char_of (48 + n)] else str_nat (n div 10) @ [char_of (48 + n mod 10)])"

declare str_nat.simps [simp del]

text \<open>
  The quote removal both frontmatter parsers apply to a value:
  \<^verbatim>\<open>if (v.startswith('"') and v.endswith('"')) or (v.startswith("'") and v.endswith("'")): v = v[1:-1]\<close>.
\<close>

definition is_quoted :: "string \<Rightarrow> bool" where
  "is_quoted v =
     ((startswith v [CHR 0x22] \<and> endswith v [CHR 0x22]) \<or>
      (startswith v [CHR 0x27] \<and> endswith v [CHR 0x27]))"

definition unquote :: "string \<Rightarrow> string" where
  "unquote v = (if is_quoted v then butlast (tl v) else v)"

text \<open>
  \<^verbatim>\<open>re.match(r'^(\w[\w-]*)\s*:\s*(.*)', stripped)\<close> on a line without a line feed: the
  groups 1 and 2 of the match, or \<open>None\<close>. Group 1 is the longest run of word characters
  and hyphens at the start (a character given back by it is neither white space nor a
  colon, so backtracking finds no other match); group 2 is the rest after the colon and
  the white space behind it.
\<close>

definition match_key_value :: "string \<Rightarrow> (string \<times> string) option" where
  "match_key_value s =
     (case s of
        [] \<Rightarrow> None
      | c # cs \<Rightarrow>
          if \<not> is_word c then None
          else
            (let key = c # takeWhile (\<lambda>x. is_word x \<or> x = CHR ''-'') cs;
                 after_key = dropWhile is_space (drop (length key) s)
             in case after_key of
                  [] \<Rightarrow> None
                | d # ds \<Rightarrow> if d = CHR '':'' then Some (key, dropWhile is_space ds) else None))"

text \<open>Truth value of an optional string, as in \<^verbatim>\<open>if current_key:\<close>.\<close>

definition truthy :: "string option \<Rightarrow> bool" where
  "truthy k = (case k of None \<Rightarrow> False | Some s \<Rightarrow> s \<noteq> [])"

text \<open>\<^verbatim>\<open>d.get(k)\<close> as a truth value, and \<^verbatim>\<open>d.get(k, "")\<close>, on a dictionary of strings.\<close>

definition get_str :: "(string \<times> string) list \<Rightarrow> string \<Rightarrow> string" where
  "get_str d k = (case map_of d k of None \<Rightarrow> [] | Some v \<Rightarrow> v)"

section \<open>The frontmatter line scanner\<close>

text \<open>
  Both parsers start alike: the content must start with \<^verbatim>\<open>---\<close>, and the first line
  after line 0 whose stripped text is \<^verbatim>\<open>---\<close> closes the block.
  \<^verbatim>\<open>
    lines = content.split("\n")
    end_index = -1
    for i in range(1, len(lines)):
        if lines[i].strip() == "---":
            end_index = i
            break
  \<close>
\<close>

fun end_index_from :: "nat \<Rightarrow> string list \<Rightarrow> nat option" where
  "end_index_from i [] = None"
| "end_index_from i (l # ls) = (if strip l = ''---'' then Some i else end_index_from (Suc i) ls)"

definition find_end_index :: "string list \<Rightarrow> nat option" where
  "find_end_index lines = end_index_from 1 (drop 1 lines)"

subsection \<open>parse_yaml_frontmatter_simple (cross_platform_validator.py)\<close>

text \<open>
  The loop state is \<open>(result, current_key, current_value)\<close>; a dictionary is an
  association list in insertion order, updated as Python does (\<^const>\<open>AList.update\<close>).
\<close>

type_synonym simple_state = "(string \<times> string) list \<times> string option \<times> string"

definition simple_step :: "simple_state \<Rightarrow> string \<Rightarrow> simple_state" where
  "simple_step st line =
     (case st of (result, current_key, current_value) \<Rightarrow>
        let stripped = strip line in
        if stripped = [] \<or> startswith stripped ''#'' then st
        else
          let indent = length line - length (lstrip line) in
          (case (if indent = 0 then match_key_value stripped else None) of
             Some (k, v) \<Rightarrow>
               (let result' =
                      (case current_key of
                         None \<Rightarrow> result
                       | Some ck \<Rightarrow>
                           if ck \<noteq> [] \<and> current_value \<noteq> []
                           then AList.update ck (strip current_value) result else result)
                in (result', Some k, unquote (strip v)))
           | None \<Rightarrow>
               (case current_key of
                  None \<Rightarrow> st
                | Some ck \<Rightarrow>
                    if 0 < indent \<and> ck \<noteq> [] then
                      (if ck = ''description'' then (result, current_key, current_value @ '' '' @ stripped)
                       else if contains stripped '':'' then
                         (if map_of result ck = None
                          then (AList.update ck ''__nested__'' result, current_key, current_value)
                          else st)
                       else st)
                    else st)))"

definition simple_finish :: "simple_state \<Rightarrow> (string \<times> string) list" where
  "simple_finish st =
     (case st of (result, current_key, current_value) \<Rightarrow>
        (case current_key of
           None \<Rightarrow> result
         | Some ck \<Rightarrow>
             if ck \<noteq> [] \<and> current_value \<noteq> []
             then AList.update ck (strip current_value) result else result))"

definition parse_yaml_frontmatter_simple :: "string \<Rightarrow> (string \<times> string) list \<times> bool" where
  "parse_yaml_frontmatter_simple content =
     (if \<not> startswith content ''---'' then ([], False)
      else
        let lines = split_char nl content in
        (case find_end_index lines of
           None \<Rightarrow> ([], False)
         | Some end_index \<Rightarrow>
             let fm_lines = drop 1 (take end_index lines)
             in (simple_finish (foldl simple_step ([], None, []) fm_lines), True)))"

subsection \<open>parse_yaml_frontmatter (skills_index_builder.py)\<close>







section \<open>cross_platform_validator.py\<close>

subsection \<open>ValidationResult\<close>

record ValidationResult =
  check :: string
  platform :: string
  passed :: bool
  message :: string
  severity :: string

text \<open>The constructor; \<^verbatim>\<open>severity\<close> defaults to \<^verbatim>\<open>"error"\<close>.\<close>

definition mk_result :: "string \<Rightarrow> string \<Rightarrow> bool \<Rightarrow> string \<Rightarrow> string \<Rightarrow> ValidationResult" where
  "mk_result c p ok m s = \<lparr>check = c, platform = p, passed = ok, message = m, severity = s\<rparr>"

definition mk_result_default :: "string \<Rightarrow> string \<Rightarrow> bool \<Rightarrow> string \<Rightarrow> ValidationResult" where
  "mk_result_default c p ok m = mk_result c p ok m ''error''"

subsection \<open>parse_openai_yaml_simple\<close>

text \<open>
  The parsed file is the dictionary of its string fields and the list under the key
  \<^verbatim>\<open>tools\<close> (the code never stores a string under that key); a tool is a dictionary of
  strings. The loop state is
  \<open>(result, current_key, current_value, tools_list, in_tools, current_tool)\<close>.
\<close>

type_synonym tool = "(string \<times> string) list"

type_synonym yaml_data = "(string \<times> string) list \<times> tool list"

type_synonym openai_state =
  "(string \<times> string) list \<times> string option \<times> string \<times> tool list \<times> bool \<times> tool"

text \<open>\<^verbatim>\<open>s.split(":", 1)\<close> on a string that holds a colon: the parts before and after the first one.\<close>

definition before_colon :: "string \<Rightarrow> string" where
  "before_colon s = takeWhile (\<lambda>c. c \<noteq> CHR '':'') s"

definition after_colon :: "string \<Rightarrow> string" where
  "after_colon s = drop 1 (dropWhile (\<lambda>c. c \<noteq> CHR '':'') s)"

text \<open>
  \<^verbatim>\<open>
    for tk in ("description", "command"):
        if tk in current_tool and not current_tool[tk]:
            current_tool[tk] = stripped
            break
  \<close>
\<close>

fun fill_continuation :: "string list \<Rightarrow> tool \<Rightarrow> string \<Rightarrow> tool" where
  "fill_continuation [] current_tool stripped = current_tool"
| "fill_continuation (tk # tks) current_tool stripped =
     (if map_of current_tool tk = Some [] then AList.update tk stripped current_tool
      else fill_continuation tks current_tool stripped)"

definition tools_line :: "tool list \<Rightarrow> tool \<Rightarrow> string \<Rightarrow> tool list \<times> tool" where
  "tools_line tools_list current_tool stripped =
     (if startswith stripped ''- name:'' then
        ((if current_tool \<noteq> [] then tools_list @ [current_tool] else tools_list),
         [(''name'', strip (after_colon stripped))])
      else if contains stripped '':'' \<and> current_tool \<noteq> [] then
        (let k = strip (before_colon stripped); v = strip (after_colon stripped) in
         if v \<in> set [''>'', ''|''] then (tools_list, AList.update k [] current_tool)
         else if v \<noteq> [] then (tools_list, AList.update k v current_tool)
         else (tools_list, current_tool))
      else if current_tool \<noteq> [] then
        (tools_list, fill_continuation [''description'', ''command''] current_tool stripped)
      else (tools_list, current_tool))"

definition openai_step :: "openai_state \<Rightarrow> string \<Rightarrow> openai_state" where
  "openai_step st line =
     (case st of (result, current_key, current_value, tools_list, in_tools, current_tool) \<Rightarrow>
        let stripped = strip line in
        if stripped = [] \<or> startswith stripped ''#'' then st
        else
          let indent = length line - length (lstrip line) in
          (case (if indent = 0 then match_key_value stripped else None) of
             Some (k, v) \<Rightarrow>
               (let result' =
                      (if truthy current_key \<and> current_value \<noteq> [] \<and> current_key \<noteq> Some ''tools''
                       then AList.update (the current_key) (strip current_value) result else result);
                    flush = (in_tools \<and> current_tool \<noteq> []);
                    tools_list' = (if flush then tools_list @ [current_tool] else tools_list);
                    current_tool' = (if flush then [] else current_tool);
                    val = strip v
                in if k = ''tools'' then (result', Some k, [], tools_list', True, current_tool')
                   else if val \<in> set [''>'', ''|'', ''|-'', ''>-'']
                   then (result', Some k, [], tools_list', False, current_tool')
                   else (result', Some k, val, tools_list', False, current_tool'))
           | None \<Rightarrow>
               if in_tools then
                 (case tools_line tools_list current_tool stripped of
                    (tools_list', current_tool') \<Rightarrow>
                      (result, current_key, current_value, tools_list', in_tools, current_tool'))
               else if 0 < indent \<and> truthy current_key then
                 (if current_value \<noteq> []
                  then (result, current_key, current_value @ '' '' @ stripped, tools_list, in_tools, current_tool)
                  else (result, current_key, stripped, tools_list, in_tools, current_tool))
               else st))"

definition openai_finish :: "openai_state \<Rightarrow> yaml_data" where
  "openai_finish st =
     (case st of (result, current_key, current_value, tools_list, in_tools, current_tool) \<Rightarrow>
        ((if truthy current_key \<and> current_value \<noteq> [] \<and> current_key \<noteq> Some ''tools''
          then AList.update (the current_key) (strip current_value) result else result),
         (if in_tools \<and> current_tool \<noteq> [] then tools_list @ [current_tool] else tools_list)))"

definition parse_openai_yaml_simple :: "string \<Rightarrow> yaml_data \<times> bool" where
  "parse_openai_yaml_simple content =
     (let yaml = openai_finish (foldl openai_step ([], None, [], [], False, []) (split_char nl content))
      in (yaml, fst yaml \<noteq> [] \<or> snd yaml \<noteq> []))"

subsection \<open>The skill directory\<close>

text \<open>
  What \<^verbatim>\<open>validate_skill\<close> reads of the file system: the name and the resolved path of
  the directory, and its entries as \<^verbatim>\<open>path.rglob("*")\<close> lists them, each with its path
  relative to the directory. A file carries what \<^verbatim>\<open>open(..., encoding="utf-8").read()\<close>
  gives (the text, or the message of the \<^verbatim>\<open>UnicodeDecodeError\<close>) and its size in bytes.
  \<open>script_is_file g\<close> is \<^verbatim>\<open>(path / "scripts" / g).is_file()\<close> for the text \<open>g\<close> a tool
  command names, which the operating system resolves. Every file is readable: the
  \<^verbatim>\<open>OSError\<close> branches of the code are outside the model.
\<close>

datatype content = Text string | Undecodable string

datatype node = Dir | File content nat

record skill_dir =
  dir_name :: string
  dir_path :: string
  entries :: "(string list \<times> node) list"
  script_is_file :: "string \<Rightarrow> bool"

datatype py_error = UnicodeDecodeError string

definition is_file :: "skill_dir \<Rightarrow> string list \<Rightarrow> bool" where
  "is_file d p = (case map_of (entries d) p of Some (File c n) \<Rightarrow> True | _ \<Rightarrow> False)"

definition is_dir :: "skill_dir \<Rightarrow> string list \<Rightarrow> bool" where
  "is_dir d p = (case map_of (entries d) p of Some Dir \<Rightarrow> True | _ \<Rightarrow> False)"

text \<open>The entries of the directory \<open>sub\<close> itself, as \<^verbatim>\<open>iterdir()\<close> gives them.\<close>

definition iterdir :: "skill_dir \<Rightarrow> string \<Rightarrow> (string \<times> node) list" where
  "iterdir d sub =
     concat (map (\<lambda>(p, n). case p of [a, b] \<Rightarrow> (if a = sub then [(b, n)] else []) | _ \<Rightarrow> [])
       (entries d))"

text \<open>\<^verbatim>\<open>len(list(dir.glob("*" + ext)))\<close>: the entries of \<open>sub\<close> whose name ends with \<open>ext\<close>.\<close>

definition glob_count :: "skill_dir \<Rightarrow> string \<Rightarrow> string \<Rightarrow> nat" where
  "glob_count d sub ext = length (filter (\<lambda>(b, n). endswith b ext) (iterdir d sub))"

text \<open>
  \<^verbatim>\<open>PurePath.suffix\<close>: \<^verbatim>\<open>i = name.rfind('.')\<close>, and \<^verbatim>\<open>name[i:]\<close> if \<^verbatim>\<open>0 < i < len(name) - 1\<close>,
  else the empty string.
\<close>

definition suffix_of :: "string \<Rightarrow> string" where
  "suffix_of name =
     (if CHR ''.'' \<notin> set name then []
      else
        let ext = rev (takeWhile (\<lambda>c. c \<noteq> CHR ''.'') (rev name));
            i = length name - length ext - 1
        in if 0 < i \<and> ext \<noteq> [] then CHR ''.'' # ext else [])"

text \<open>\<^verbatim>\<open>"/".join(parts)\<close>, the text of a relative path.\<close>

fun join_path :: "string list \<Rightarrow> string" where
  "join_path [] = ''.''"
| "join_path [a] = a"
| "join_path (a # b # r) = a @ ''/'' @ join_path (b # r)"

text \<open>
  \<^verbatim>\<open>f"{size_kb:.1f}"\<close> for \<^verbatim>\<open>size_kb = total_size / 1024\<close>: the quotient is exact in
  binary floating point (for sizes below \<open>2^53\<close>), and the format rounds it to tenths, a
  tie to the even tenth.
\<close>

definition fmt_kb :: "nat \<Rightarrow> string" where
  "fmt_kb total_size =
     (let q = (total_size * 10) div 1024;
          r = (total_size * 10) mod 1024;
          t = (if 512 < r \<or> (r = 512 \<and> odd q) then q + 1 else q)
      in str_nat (t div 10) @ ''.'' @ str_nat (t mod 10))"

subsection \<open>The checks of validate_skill\<close>

text \<open>Check 1: SKILL.md exists.\<close>

definition check1 :: "skill_dir \<Rightarrow> ValidationResult list" where
  "check1 d =
     (if is_file d [''SKILL.md'']
      then [mk_result_default ''skill_md_exists'' ''claude-code'' True ''SKILL.md exists'']
      else [mk_result ''skill_md_exists'' ''claude-code'' False
              ''SKILL.md not found - required for Claude Code'' ''error''])"

text \<open>Check 2: valid YAML frontmatter; gives the frontmatter the later checks read.\<close>

definition check2 :: "skill_dir \<Rightarrow> (string \<times> string) list \<times> ValidationResult list" where
  "check2 d =
     (case map_of (entries d) [''SKILL.md''] of
        Some (File (Text c) n) \<Rightarrow>
          (case parse_yaml_frontmatter_simple c of
             (frontmatter, fm_valid) \<Rightarrow>
               (frontmatter,
                if fm_valid
                then [mk_result_default ''valid_frontmatter'' ''claude-code'' True
                        ''Valid YAML frontmatter found'']
                else [mk_result ''valid_frontmatter'' ''claude-code'' False
                        ''No valid YAML frontmatter (must start with --- and end with ---)'' ''error'']))
      | Some (File (Undecodable e) n) \<Rightarrow>
          ([], [mk_result ''valid_frontmatter'' ''claude-code'' False
                  (''Cannot read SKILL.md: '' @ e) ''error''])
      | _ \<Rightarrow> ([], []))"

text \<open>Check 3: name field present; gives the skill name.\<close>

definition check3 :: "skill_dir \<Rightarrow> (string \<times> string) list \<Rightarrow> string \<times> ValidationResult list" where
  "check3 d frontmatter =
     (if get_str frontmatter ''name'' \<noteq> []
      then (get_str frontmatter ''name'',
            [mk_result_default ''name_field'' ''claude-code'' True
               (''Name field present: '' @ get_str frontmatter ''name'')])
      else (dir_name d,
            [mk_result ''name_field'' ''claude-code'' False
               ''Name field missing in frontmatter'' ''error'']))"

text \<open>Check 4: description field present and in discovery format.\<close>

definition discovery_patterns :: "string list" where
  "discovery_patterns =
     [''this skill'', ''should be used when'', ''use for'', ''use when'',
      ''analyzes'', ''generates'', ''provides'', ''automates'']"

definition check4 :: "(string \<times> string) list \<Rightarrow> ValidationResult list" where
  "check4 frontmatter =
     (let desc = get_str frontmatter ''description'' in
      if desc \<noteq> [] then
        [mk_result_default ''description_exists'' ''claude-code'' True ''Description field present'',
         (if list_ex (\<lambda>pat. contains (lower desc) pat) discovery_patterns
          then mk_result_default ''description_format'' ''claude-code'' True
                 ''Description uses discovery-friendly format''
          else mk_result ''description_format'' ''claude-code'' False
                 (''Description should use third-person, discovery-friendly format '' @
                  ''(e.g., '' @ [CHR 0x27] @ ''This skill should be used when...'' @ [CHR 0x27] @ '')'')
                 ''warning'')]
      else
        [mk_result ''description_exists'' ''claude-code'' False
           ''Description field missing in frontmatter'' ''error''])"

text \<open>Check 5: license field.\<close>

definition check5 :: "(string \<times> string) list \<Rightarrow> ValidationResult list" where
  "check5 frontmatter =
     (if get_str frontmatter ''license'' \<noteq> []
      then [mk_result_default ''license_field'' ''claude-code'' True
              (''License: '' @ get_str frontmatter ''license'')]
      else [mk_result ''license_field'' ''claude-code'' False
              ''License field missing (recommended for distribution)'' ''warning''])"

text \<open>Check 6: scripts directory.\<close>

definition check6 :: "skill_dir \<Rightarrow> ValidationResult list" where
  "check6 d =
     (if is_dir d [''scripts''] then
        (if 0 < glob_count d ''scripts'' ''.py''
         then [mk_result_default ''scripts_dir'' ''claude-code'' True
                 (''scripts/ directory found ('' @ str_nat (glob_count d ''scripts'' ''.py'') @
                  '' Python tool(s))'')]
         else [mk_result ''scripts_dir'' ''claude-code'' False
                 ''scripts/ directory exists but contains no Python files'' ''warning''])
      else [mk_result ''scripts_dir'' ''claude-code'' False
              ''scripts/ directory not found (optional but recommended)'' ''warning''])"

text \<open>Check 7: references directory.\<close>

definition check7 :: "skill_dir \<Rightarrow> ValidationResult list" where
  "check7 d =
     (if is_dir d [''references'']
      then [mk_result_default ''references_dir'' ''claude-code'' True
              (''references/ directory found ('' @ str_nat (glob_count d ''references'' ''.md'') @
               '' file(s))'')]
      else [mk_result ''references_dir'' ''claude-code'' False
              ''references/ directory not found (optional)'' ''info''])"

text \<open>Check 8: assets directory.\<close>

definition check8 :: "skill_dir \<Rightarrow> ValidationResult list" where
  "check8 d =
     (if is_dir d [''assets'']
      then [mk_result_default ''assets_dir'' ''claude-code'' True
              (''assets/ directory found ('' @
               str_nat (length (filter (\<lambda>(b, n). n \<noteq> Dir) (iterdir d ''assets''))) @
               '' file(s))'')]
      else [mk_result ''assets_dir'' ''claude-code'' False
              ''assets/ directory not found (optional)'' ''info''])"

text \<open>
  Check 9: no requirements.txt. The code reads the file inside
  \<^verbatim>\<open>try: ... except OSError: pass\<close>, so a \<^verbatim>\<open>UnicodeDecodeError\<close> leaves the function.
  \<^verbatim>\<open>deps = [l.strip() for l in f if l.strip() and not l.startswith("#")]\<close>
\<close>

definition check9 :: "skill_dir \<Rightarrow> py_error + ValidationResult list" where
  "check9 d =
     (case map_of (entries d) [''requirements.txt''] of
        Some (File (Text c) n) \<Rightarrow>
          (let deps = filter (\<lambda>l. strip l \<noteq> [] \<and> \<not> startswith l ''#'') (split_char nl c) in
           if deps \<noteq> []
           then Inr [mk_result ''no_heavy_deps'' ''claude-code'' False
                       (''requirements.txt found with '' @ str_nat (length deps) @ '' dependencies '' @
                        ''(skills should use standard library only)'') ''warning'']
           else Inr [])
      | Some (File (Undecodable e) n) \<Rightarrow> Inl (UnicodeDecodeError e)
      | _ \<Rightarrow> Inr [mk_result_default ''no_heavy_deps'' ''claude-code'' True
                   ''No requirements.txt (standard library only - good)''])"

text \<open>Check 10: agents/openai.yaml exists.\<close>

definition check10 :: "skill_dir \<Rightarrow> ValidationResult list" where
  "check10 d =
     (if is_file d [''agents'', ''openai.yaml'']
      then [mk_result_default ''openai_yaml_exists'' ''codex-cli'' True ''agents/openai.yaml exists'']
      else [mk_result ''openai_yaml_exists'' ''codex-cli'' False
              ''agents/openai.yaml not found - required for Codex CLI'' ''error''])"

text \<open>Check 11: valid YAML structure; gives the data the later checks read.\<close>

definition check11 :: "skill_dir \<Rightarrow> yaml_data \<times> ValidationResult list" where
  "check11 d =
     (case map_of (entries d) [''agents'', ''openai.yaml''] of
        Some (File (Text c) n) \<Rightarrow>
          (case parse_openai_yaml_simple c of
             (yaml, yaml_valid) \<Rightarrow>
               (yaml,
                if yaml_valid
                then [mk_result_default ''openai_yaml_valid'' ''codex-cli'' True
                        ''agents/openai.yaml has valid structure'']
                else [mk_result ''openai_yaml_valid'' ''codex-cli'' False
                        ''agents/openai.yaml appears empty or invalid'' ''error'']))
      | Some (File (Undecodable e) n) \<Rightarrow>
          (([], []), [mk_result ''openai_yaml_valid'' ''codex-cli'' False
                        (''Cannot read agents/openai.yaml: '' @ e) ''error''])
      | _ \<Rightarrow> (([], []), []))"

text \<open>Check 12: name field in openai.yaml, and whether it matches the skill name.\<close>

definition check12 :: "skill_dir \<Rightarrow> yaml_data \<Rightarrow> string \<Rightarrow> ValidationResult list" where
  "check12 d yaml skill_name =
     (let name = get_str (fst yaml) ''name'' in
      if name \<noteq> [] then
        [mk_result_default ''yaml_name'' ''codex-cli'' True (''Name field present: '' @ name),
         (if skill_name \<noteq> [] \<and> name \<noteq> skill_name
          then mk_result ''name_match'' ''cross-platform'' False
                 (''Name mismatch: SKILL.md has '' @ [CHR 0x27] @ skill_name @ [CHR 0x27] @
                  '', openai.yaml has '' @ [CHR 0x27] @ name @ [CHR 0x27]) ''warning''
          else mk_result_default ''name_match'' ''cross-platform'' True
                 ''Skill name matches across platforms'')]
      else if is_file d [''agents'', ''openai.yaml'']
      then [mk_result ''yaml_name'' ''codex-cli'' False
              ''Name field missing in agents/openai.yaml'' ''error'']
      else [])"

text \<open>Check 13: description in openai.yaml.\<close>

definition check13 :: "skill_dir \<Rightarrow> yaml_data \<Rightarrow> ValidationResult list" where
  "check13 d yaml =
     (if get_str (fst yaml) ''description'' \<noteq> []
      then [mk_result_default ''yaml_description'' ''codex-cli'' True
              ''Description field present in openai.yaml'']
      else if is_file d [''agents'', ''openai.yaml'']
      then [mk_result ''yaml_description'' ''codex-cli'' False
              ''Description field missing in agents/openai.yaml'' ''error'']
      else [])"

text \<open>Check 14: instructions in openai.yaml.\<close>

definition check14 :: "skill_dir \<Rightarrow> yaml_data \<Rightarrow> ValidationResult list" where
  "check14 d yaml =
     (let inst = get_str (fst yaml) ''instructions''; inst_len = length inst in
      if inst \<noteq> [] then
        (if 50 < inst_len
         then [mk_result_default ''yaml_instructions'' ''codex-cli'' True
                 (''Instructions field present ('' @ str_nat inst_len @ '' chars)'')]
         else [mk_result ''yaml_instructions'' ''codex-cli'' False
                 (''Instructions field is very short ('' @ str_nat inst_len @ '' chars) - '' @
                  ''consider adding more detail'') ''warning''])
      else if is_file d [''agents'', ''openai.yaml'']
      then [mk_result ''yaml_instructions'' ''codex-cli'' False
              ''Instructions field missing in agents/openai.yaml'' ''warning'']
      else [])"

text \<open>
  Check 15: the tools of openai.yaml reference existing scripts.
  \<^verbatim>\<open>re.search(r'scripts/(\S+)', cmd)\<close> finds the leftmost \<^verbatim>\<open>scripts/\<close> that a character
  other than white space follows; group 1 is the run of such characters.
\<close>

fun search_script :: "string \<Rightarrow> string option" where
  "search_script [] = None"
| "search_script (c # cs) =
     (let rest = drop 8 (c # cs) in
      if startswith (c # cs) ''scripts/'' \<and> takeWhile (\<lambda>x. \<not> is_space x) rest \<noteq> []
      then Some (takeWhile (\<lambda>x. \<not> is_space x) rest)
      else search_script cs)"

definition tool_name :: "tool \<Rightarrow> string" where
  "tool_name t = (case map_of t ''name'' of None \<Rightarrow> ''unknown'' | Some n \<Rightarrow> n)"

definition check15_tool :: "skill_dir \<Rightarrow> tool \<Rightarrow> ValidationResult list" where
  "check15_tool d t =
     (case search_script (get_str t ''command'') of
        None \<Rightarrow> []
      | Some g \<Rightarrow>
          if script_is_file d g
          then [mk_result_default (''tool_script_'' @ tool_name t) ''codex-cli'' True
                  (''Tool '' @ [CHR 0x27] @ tool_name t @ [CHR 0x27] @ '' references existing script'')]
          else [mk_result (''tool_script_'' @ tool_name t) ''codex-cli'' False
                  (''Tool '' @ [CHR 0x27] @ tool_name t @ [CHR 0x27] @ '' references '' @
                   ''missing script: '' @ g) ''error''])"

definition check15 :: "skill_dir \<Rightarrow> yaml_data \<Rightarrow> ValidationResult list" where
  "check15 d yaml = concat (map (check15_tool d) (snd yaml))"

text \<open>
  Check 16: file encoding. The loop stops at the first file with one of the four
  suffixes that does not decode; its \<^verbatim>\<open>else\<close> branch runs when no file stopped it.
\<close>

definition is_text_suffix :: "string list \<Rightarrow> bool" where
  "is_text_suffix p = (p \<noteq> [] \<and> suffix_of (last p) \<in> set [''.md'', ''.yaml'', ''.yml'', ''.py''])"

fun check16_loop :: "(string list \<times> node) list \<Rightarrow> ValidationResult list" where
  "check16_loop [] =
     [mk_result_default ''utf8_encoding'' ''cross-platform'' True ''All text files are UTF-8 encoded'']"
| "check16_loop ((p, n) # es) =
     (case n of
        File (Undecodable e) sz \<Rightarrow>
          if is_text_suffix p
          then [mk_result ''utf8_encoding'' ''cross-platform'' False
                  (''File not UTF-8 encoded: '' @ join_path p) ''error'']
          else check16_loop es
      | _ \<Rightarrow> check16_loop es)"

definition check16 :: "skill_dir \<Rightarrow> ValidationResult list" where
  "check16 d = check16_loop (entries d)"

text \<open>Check 17: skill size; \<^verbatim>\<open>total_size / 1024 < 1024\<close> holds exactly below \<open>1024 * 1024\<close> bytes.\<close>

definition total_size :: "skill_dir \<Rightarrow> nat" where
  "total_size d = sum_list (map (\<lambda>(p, n). case n of File c sz \<Rightarrow> sz | Dir \<Rightarrow> 0) (entries d))"

definition check17 :: "skill_dir \<Rightarrow> ValidationResult list" where
  "check17 d =
     (if total_size d < 1024 * 1024
      then [mk_result_default ''skill_size'' ''cross-platform'' True
              (''Skill size: '' @ fmt_kb (total_size d) @ '' KB (under 1 MB - good)'')]
      else [mk_result ''skill_size'' ''cross-platform'' False
              (''Skill size: '' @ fmt_kb (total_size d) @ '' KB (over 1 MB - consider reducing)'')
              ''warning''])"

subsection \<open>The report\<close>

record summary =
  total_checks :: nat
  passed_count :: nat
  errors :: nat
  warnings :: nat
  info :: nat

record report =
  skill_name :: string
  skill_path :: string
  compatible :: bool
  summary :: summary
  checks :: "ValidationResult list"

text \<open>
  \<^verbatim>\<open>
    errors = [c for c in checks if not c.passed and c.severity == "error"]
    warnings = [c for c in checks if not c.passed and c.severity == "warning"]
    infos = [c for c in checks if not c.passed and c.severity == "info"]
    passed = [c for c in checks if c.passed]
    if strict:
        is_compatible = len(errors) == 0 and len(warnings) == 0
    else:
        is_compatible = len(errors) == 0
  \<close>
  The field \<open>passed_count\<close> is the report's \<^verbatim>\<open>summary["passed"]\<close>.
\<close>

definition failed_with :: "string \<Rightarrow> ValidationResult list \<Rightarrow> ValidationResult list" where
  "failed_with sev cs = filter (\<lambda>c. \<not> passed c \<and> severity c = sev) cs"

definition build_report :: "string \<Rightarrow> string \<Rightarrow> bool \<Rightarrow> ValidationResult list \<Rightarrow> report" where
  "build_report name path strict cs =
     (let errs = failed_with ''error'' cs;
          warns = failed_with ''warning'' cs;
          infos = failed_with ''info'' cs;
          oks = filter passed cs;
          is_compatible = (if strict then length errs = 0 \<and> length warns = 0 else length errs = 0)
      in \<lparr>skill_name = name, skill_path = path, compatible = is_compatible,
          summary = \<lparr>total_checks = length cs, passed_count = length oks, errors = length errs,
                      warnings = length warns, info = length infos\<rparr>,
          checks = cs\<rparr>)"

subsection \<open>validate_skill\<close>

definition validate_skill :: "skill_dir \<Rightarrow> bool \<Rightarrow> py_error + report" where
  "validate_skill d strict =
     (let fm = check2 d;
          frontmatter = fst fm;
          nm = check3 d frontmatter;
          name = fst nm;
          ym = check11 d;
          yaml = fst ym
      in case check9 d of
           Inl e \<Rightarrow> Inl e
         | Inr c9 \<Rightarrow>
             Inr (build_report name (dir_path d) strict
                    (check1 d @ snd fm @ snd nm @ check4 frontmatter @ check5 frontmatter @
                     check6 d @ check7 d @ check8 d @ c9 @ check10 d @ snd ym @
                     check12 d yaml name @ check13 d yaml @ check14 d yaml @ check15 d yaml @
                     check16 d @ check17 d)))"

subsection \<open>Notions the statements about validate_skill use\<close>

text \<open>The three severities the constructor's comment lists.\<close>

definition sev_ok :: "ValidationResult \<Rightarrow> bool" where
  "sev_ok c = (severity c = ''error'' \<or> severity c = ''warning'' \<or> severity c = ''info'')"

text \<open>
  A skill directory without SKILL.md that holds one file, \<^verbatim>\<open>requirements.txt\<close>, of the
  single byte \<^verbatim>\<open>0xff\<close> (not UTF-8); the message is the one Python gives for that byte.
\<close>

definition binary_requirements_dir :: skill_dir where
  "binary_requirements_dir =
     \<lparr>dir_name = ''my-skill'', dir_path = ''/tmp/my-skill'',
      entries = [([''requirements.txt''],
                  File (Undecodable (''utf-8 codec can'' @ [CHR 0x27] @
                    ''t decode byte 0xff in position 0: invalid start byte'')) 1)],
      script_is_file = (\<lambda>g. False)\<rparr>"

text \<open>An empty skill directory.\<close>

definition empty_skill_dir :: skill_dir where
  "empty_skill_dir =
     \<lparr>dir_name = ''my-skill'', dir_path = ''/tmp/my-skill'', entries = [],
      script_is_file = (\<lambda>g. False)\<rparr>"

section \<open>claudemd_optimizer.py\<close>

text \<open>
  \<^verbatim>\<open>estimate_tokens\<close> is \<^verbatim>\<open>int(len(text) / 3.5)\<close>. The divisor is exact in binary floating
  point and the quotient of a length below \<open>2^50\<close> by it is rounded by less than \<open>1/7\<close>,
  so the integer part is that of \<open>2 * len / 7\<close>.
\<close>

definition estimate_tokens :: "string \<Rightarrow> nat" where
  "estimate_tokens t = (2 * length t) div 7"

text \<open>\<^verbatim>\<open>"\n".join(lines)\<close>.\<close>

fun join_lines :: "string list \<Rightarrow> string" where
  "join_lines [] = []"
| "join_lines [l] = l"
| "join_lines (l # m # ls) = l @ [nl] @ join_lines (m # ls)"

text \<open>\<^verbatim>\<open>len(text.split())\<close>: the number of maximal runs of characters other than white space.\<close>

fun count_words :: "string \<Rightarrow> nat" where
  "count_words [] = 0"
| "count_words (c # cs) =
     (if is_space c then count_words cs
      else (case cs of
              [] \<Rightarrow> 1
            | d # ds \<Rightarrow> if is_space d then Suc (count_words cs) else count_words cs))"

subsection \<open>extract_sections\<close>

record section_info =
  sec_title :: string
  sec_level :: nat
  sec_content :: string
  sec_line_count :: nat
  sec_token_estimate :: nat

text \<open>
  \<^verbatim>\<open>re.match(r"^(#{1,6})\s+(.+)$", line)\<close> on a line without a line feed: one to six
  hashes, white space, and at least one more character. The result is the length of
  group 1 and \<^verbatim>\<open>group(2).strip()\<close>, which is the stripped rest after the hashes whatever
  the white space run gives back.
\<close>

definition heading_match :: "string \<Rightarrow> (nat \<times> string) option" where
  "heading_match line =
     (let h = length (takeWhile (\<lambda>c. c = CHR ''#'') line); rest = drop h line in
      if 1 \<le> h \<and> h \<le> 6 \<and> 2 \<le> length rest \<and> is_space (hd rest)
      then Some (h, strip rest) else None)"

definition make_section :: "string \<Rightarrow> nat \<Rightarrow> string list \<Rightarrow> section_info" where
  "make_section t lvl current_content =
     (let content_text = strip (join_lines current_content) in
      \<lparr>sec_title = t, sec_level = lvl, sec_content = content_text,
       sec_line_count = length (filter (\<lambda>l. strip l \<noteq> []) current_content),
       sec_token_estimate = estimate_tokens content_text\<rparr>)"

text \<open>The loop state is \<open>(sections, current_section, current_content, current_level)\<close>.\<close>

definition sections_step ::
  "section_info list \<times> string option \<times> string list \<times> nat \<Rightarrow> string \<Rightarrow>
   section_info list \<times> string option \<times> string list \<times> nat" where
  "sections_step st line =
     (case st of (sections, current_section, current_content, current_level) \<Rightarrow>
        (case heading_match line of
           Some (h, t) \<Rightarrow>
             ((case current_section of
                 None \<Rightarrow> sections
               | Some cur \<Rightarrow> sections @ [make_section cur current_level current_content]),
              Some t, [], h)
         | None \<Rightarrow> (sections, current_section, current_content @ [line], current_level)))"

definition extract_sections :: "string \<Rightarrow> section_info list" where
  "extract_sections t =
     (case foldl sections_step ([], None, [], 0) (split_char nl t) of
        (sections, current_section, current_content, current_level) \<Rightarrow>
          (case current_section of
             None \<Rightarrow> sections
           | Some cur \<Rightarrow> sections @ [make_section cur current_level current_content]))"

subsection \<open>check_section_completeness\<close>

text \<open>\<^verbatim>\<open>RECOMMENDED_SECTIONS\<close>, in the order of the dictionary: name, aliases, importance, description.\<close>

definition RECOMMENDED_SECTIONS :: "(string \<times> string list \<times> string \<times> string) list" where
  "RECOMMENDED_SECTIONS =
     [(''project purpose'',
       [''project purpose'', ''project overview'', ''about'', ''overview'', ''what is this''],
       ''critical'', ''One paragraph explaining what the project is and who it serves''),
      (''architecture overview'',
       [''architecture'', ''structure'', ''directory structure'', ''repository structure'',
        ''project structure''],
       ''critical'', ''Directory layout, key patterns, data flow''),
      (''development environment'',
       [''development environment'', ''development'', ''setup'', ''getting started'', ''quick start'',
        ''dev setup'', ''build'', ''environment''],
       ''critical'', ''Build commands, test commands, environment setup''),
      (''key principles'',
       [''key principles'', ''principles'', ''guidelines'', ''rules'', ''conventions'', ''standards''],
       ''high'', ''3-7 non-obvious rules Claude must follow''),
      (''anti-patterns'',
       [''anti-patterns'', ''anti patterns'', ''don'' @ [CHR 0x27] @ ''t'', ''avoid'', ''pitfalls'',
        ''common mistakes''],
       ''high'', ''Things that look reasonable but are wrong in this project''),
      (''git workflow'',
       [''git workflow'', ''git'', ''branching'', ''branch strategy'', ''commits'', ''version control''],
       ''medium'', ''Branch strategy, commit conventions, PR process''),
      (''testing'',
       [''testing'', ''tests'', ''test'', ''test commands'', ''how to test''],
       ''medium'', ''How to run tests, testing conventions, coverage targets'')]"

record completeness_check =
  cc_section :: string
  cc_importance :: string
  cc_found :: bool
  cc_matched_as :: "string option"
  cc_description :: string

text \<open>
  The first title, in the order of the aliases and then of the titles, with
  \<^verbatim>\<open>alias in title or title in alias\<close>.
\<close>

definition first_match :: "string list \<Rightarrow> string list \<Rightarrow> string option" where
  "first_match aliases titles =
     (case concat (map (\<lambda>alias. filter (\<lambda>t. contains t alias \<or> contains alias t) titles) aliases) of
        [] \<Rightarrow> None
      | t # ts \<Rightarrow> Some t)"

definition check_section_completeness :: "section_info list \<Rightarrow> completeness_check list" where
  "check_section_completeness sections =
     (let section_titles_lower = map (\<lambda>s. lower (sec_title s)) sections in
      map (\<lambda>(section_name, aliases, importance, description).
             let matched_title = first_match aliases section_titles_lower in
             \<lparr>cc_section = section_name, cc_importance = importance,
              cc_found = (matched_title \<noteq> None), cc_matched_as = matched_title,
              cc_description = description\<rparr>)
        RECOMMENDED_SECTIONS)"

subsection \<open>detect_redundancy\<close>

text \<open>
  An issue \<^verbatim>\<open>detect_redundancy\<close> reports; \<^verbatim>\<open>generate_recommendations\<close> reads its type only.
  The function itself matches eighteen regular expressions and counts sentences and
  word triples; it is a parameter \<open>detect\<close> of \<open>analyze_claudemd\<close> below, so whatever it
  finds, the statements hold.
\<close>

record redundancy =
  red_type :: string
  red_message :: string
  red_occurrences :: nat

subsection \<open>suggest_hierarchical_loading\<close>

text \<open>The token limit comes from \<^verbatim>\<open>argparse\<close> with \<^verbatim>\<open>type=int\<close>: any integer.\<close>

definition str_int :: "int \<Rightarrow> string" where
  "str_int i = (if i < 0 then ''-'' @ str_nat (nat (- i)) else str_nat (nat i))"

text \<open>
  \<^verbatim>\<open>sorted(..., key=..., reverse=True)\<close>: descending, and stable on equal keys.
\<close>

definition sorted_desc :: "('a \<Rightarrow> nat) \<Rightarrow> 'a list \<Rightarrow> 'a list" where
  "sorted_desc f xs = rev (sort_key f (rev xs))"

text \<open>
  \<^verbatim>\<open>
    tokens_to_move = 0
    for section in movable_sections:
        if tokens_to_move >= overage:
            break
        suggestions.append(...)
        tokens_to_move += section["token_estimate"]
  \<close>
\<close>

fun move_suggestions :: "int \<Rightarrow> int \<Rightarrow> section_info list \<Rightarrow> string list" where
  "move_suggestions tokens_to_move overage [] = []"
| "move_suggestions tokens_to_move overage (s # ss) =
     (if overage \<le> tokens_to_move then []
      else (''Move '' @ [CHR 0x22] @ sec_title s @ [CHR 0x22] @ '' (~'' @
            str_nat (sec_token_estimate s) @ '' tokens) '' @
            ''to a child CLAUDE.md or reference file'')
           # move_suggestions (tokens_to_move + int (sec_token_estimate s)) overage ss)"

definition suggest_hierarchical_loading :: "string \<Rightarrow> section_info list \<Rightarrow> int \<Rightarrow> string list" where
  "suggest_hierarchical_loading t sections limit =
     (let total_tokens = int (estimate_tokens t) in
      if total_tokens \<le> limit then []
      else
        let overage = total_tokens - limit;
            movable_sections =
              sorted_desc sec_token_estimate
                (filter (\<lambda>s. sec_level s = 2 \<and> 200 < sec_token_estimate s) sections)
        in (''File is ~'' @ str_int total_tokens @ '' tokens, '' @ str_int overage @
            '' tokens over the '' @ str_int limit @ '' token target.'')
           # move_suggestions 0 overage movable_sections)"

subsection \<open>generate_recommendations\<close>

record recommendation =
  rec_priority :: string
  rec_category :: string
  rec_message :: string

definition mk_rec :: "string \<Rightarrow> string \<Rightarrow> string \<Rightarrow> recommendation" where
  "mk_rec p c m = \<lparr>rec_priority = p, rec_category = c, rec_message = m\<rparr>"

text \<open>\<^verbatim>\<open>text.split("---", 2)[1]\<close> when the split has three parts: the text between the first two \<^verbatim>\<open>---\<close>.\<close>

fun after_first :: "string \<Rightarrow> string \<Rightarrow> string option" where
  "after_first sep [] = (if sep = [] then Some [] else None)"
| "after_first sep (c # cs) =
     (if startswith (c # cs) sep then Some (drop (length sep) (c # cs)) else after_first sep cs)"

fun before_first :: "string \<Rightarrow> string \<Rightarrow> string option" where
  "before_first sep [] = (if sep = [] then Some [] else None)"
| "before_first sep (c # cs) =
     (if startswith (c # cs) sep then Some []
      else (case before_first sep cs of None \<Rightarrow> None | Some b \<Rightarrow> Some (c # b)))"

definition second_part :: "string \<Rightarrow> string option" where
  "second_part t =
     (case after_first ''---'' t of None \<Rightarrow> None | Some r \<Rightarrow> before_first ''---'' r)"

text \<open>The tests on a stripped line: \<^verbatim>\<open>line.strip().startswith((...))\<close> with a tuple of prefixes.\<close>

definition startswith_any :: "string \<Rightarrow> string list \<Rightarrow> bool" where
  "startswith_any s ps = list_ex (\<lambda>p. startswith s p) ps"

definition missing_recs :: "string \<Rightarrow> string \<Rightarrow> string \<Rightarrow> completeness_check list \<Rightarrow> recommendation list" where
  "missing_recs importance p intro completeness =
     map (\<lambda>c. mk_rec p ''completeness'' (intro @ cc_section c @ '' -- '' @ cc_description c))
       (filter (\<lambda>c. \<not> cc_found c \<and> cc_importance c = importance) completeness)"

definition token_budget_recs :: "int \<Rightarrow> int \<Rightarrow> recommendation list" where
  "token_budget_recs total_tokens limit =
     (if limit < total_tokens
      then [mk_rec ''high'' ''token_budget''
              (''File exceeds target of '' @ str_int limit @ '' tokens ('' @ str_int total_tokens @
               '' current). '' @ ''Use hierarchical loading to reduce.'')]
      else []) @
     (if limit * 2 < total_tokens
      then [mk_rec ''high'' ''token_budget''
              ''File is more than double the target size. Major restructuring recommended.'']
      else [])"

definition redundancy_recs :: "redundancy list \<Rightarrow> recommendation list" where
  "redundancy_recs redundancies =
     (let generic_count = length (filter (\<lambda>r. red_type r = ''generic_content'') redundancies);
          verbose_count = length (filter (\<lambda>r. red_type r = ''verbose_phrasing'') redundancies);
          duplicate_count = length (filter (\<lambda>r. red_type r = ''duplicate_sentence'') redundancies)
      in
      (if 0 < generic_count
       then [mk_rec ''medium'' ''redundancy''
               (''Found '' @ str_nat generic_count @ '' generic/vague instructions. '' @
                ''Replace with specific, actionable guidance or remove.'')]
       else []) @
      (if 0 < verbose_count
       then [mk_rec ''low'' ''redundancy''
               (''Found '' @ str_nat verbose_count @ '' verbose phrases that can be simplified.'')]
       else []) @
      (if 0 < duplicate_count
       then [mk_rec ''medium'' ''redundancy''
               (''Found '' @ str_nat duplicate_count @ '' duplicate sentences. Remove repetition.'')]
       else []))"

definition structure_recs :: "string \<Rightarrow> section_info list \<Rightarrow> recommendation list" where
  "structure_recs t sections =
     (let line_count = length (split_char nl t);
          h2_sections = filter (\<lambda>s. sec_level s = 2) sections
      in
      (if 300 < line_count
       then [mk_rec ''medium'' ''structure''
               (''File is '' @ str_nat line_count @
                '' lines. Consider splitting into hierarchical CLAUDE.md files.'')]
       else []) @
      (if 10 < length h2_sections
       then [mk_rec ''low'' ''structure''
               (''File has '' @ str_nat (length h2_sections) @
                '' top-level sections. Consider consolidating.'')]
       else []) @
      (if startswith (strip t) ''---'' then
         (case second_part t of
            None \<Rightarrow> []
          | Some frontmatter \<Rightarrow>
              if strip frontmatter = []
              then [mk_rec ''low'' ''structure''
                      ''YAML frontmatter is empty. Either add content or remove the delimiters.'']
              else [])
       else []))"

definition format_recs :: "string \<Rightarrow> recommendation list" where
  "format_recs t =
     (let lines = split_char nl t;
          bullet_lines = length (filter (\<lambda>l. startswith_any (strip l) [''- '', ''* '', ''1.'']) lines);
          paragraph_lines =
            length (filter (\<lambda>l. 80 < length (strip l) \<and>
                               \<not> startswith_any (strip l) [''#'', ''-'', ''*'', ''|'', ''`'', ''>'']) lines)
      in if bullet_lines < paragraph_lines \<and> 10 < paragraph_lines
         then [mk_rec ''medium'' ''format''
                 (''Heavy use of paragraphs. Bullet points are ~30% more token-efficient '' @
                  ''and easier for Claude to parse.'')]
         else [])"

definition generate_recommendations ::
  "string \<Rightarrow> section_info list \<Rightarrow> completeness_check list \<Rightarrow> redundancy list \<Rightarrow> string list \<Rightarrow> int \<Rightarrow>
   recommendation list" where
  "generate_recommendations t sections completeness redundancies hierarchical limit =
     missing_recs ''critical'' ''high'' ''Add missing critical section: '' completeness @
     missing_recs ''high'' ''medium'' ''Consider adding section: '' completeness @
     token_budget_recs (int (estimate_tokens t)) limit @
     redundancy_recs redundancies @
     structure_recs t sections @
     format_recs t @
     map (\<lambda>suggestion. mk_rec ''medium'' ''hierarchical_loading'' suggestion) hierarchical"

subsection \<open>analyze_claudemd\<close>

text \<open>
  What the function reads of the file system at \<^verbatim>\<open>file_path\<close>: whether the path exists,
  whether it is a file, what \<^verbatim>\<open>read_text(encoding="utf-8")\<close> gives, and the resolved path.
\<close>

datatype path_state = Missing | Not_a_file | Is_file content

record metrics =
  line_count :: nat
  non_empty_lines :: nat
  character_count :: nat
  word_count :: nat
  token_estimate :: nat
  token_limit :: int
  within_budget :: bool
  section_count :: nat

record analysis =
  analysed_file :: string
  metrics :: metrics
  sections :: "(string \<times> nat \<times> nat \<times> nat) list"
  completeness :: "completeness_check list"
  redundancies :: "redundancy list"
  recommendations :: "recommendation list"
  score :: int

text \<open>The result dictionary: \<^verbatim>\<open>{"success": False, "error": ...}\<close> or the analysis with \<^verbatim>\<open>"success": True\<close>.\<close>

datatype analysis_result = Failure string | Success analysis

text \<open>
  \<^verbatim>\<open>
    score = 100
    for rec in recommendations:
        if rec["priority"] == "high": score -= 15
        elif rec["priority"] == "medium": score -= 8
        elif rec["priority"] == "low": score -= 3
    score = max(0, min(100, score))
  \<close>
\<close>

definition penalty :: "recommendation \<Rightarrow> int" where
  "penalty r =
     (if rec_priority r = ''high'' then 15
      else if rec_priority r = ''medium'' then 8
      else if rec_priority r = ''low'' then 3 else 0)"

definition compute_score :: "recommendation list \<Rightarrow> int" where
  "compute_score recs = max 0 (min 100 (foldl (\<lambda>s r. s - penalty r) 100 recs))"

definition analyze_claudemd ::
  "(string \<Rightarrow> redundancy list) \<Rightarrow> path_state \<Rightarrow> string \<Rightarrow> string \<Rightarrow> int \<Rightarrow> py_error + analysis_result" where
  "analyze_claudemd detect st file_path resolved limit =
     (case st of
        Missing \<Rightarrow> Inr (Failure (''File not found: '' @ file_path))
      | Not_a_file \<Rightarrow> Inr (Failure (''Not a file: '' @ file_path))
      | Is_file (Undecodable e) \<Rightarrow> Inl (UnicodeDecodeError e)
      | Is_file (Text t) \<Rightarrow>
          (let secs = extract_sections t;
               comp = check_section_completeness secs;
               reds = detect t;
               hierarchical = suggest_hierarchical_loading t secs limit;
               recs = generate_recommendations t secs comp reds hierarchical limit
           in Inr (Success
                \<lparr>analysed_file = resolved,
                 metrics =
                   \<lparr>line_count = length (split_char nl t),
                    non_empty_lines = length (filter (\<lambda>l. strip l \<noteq> []) (split_char nl t)),
                    character_count = length t,
                    word_count = count_words t,
                    token_estimate = estimate_tokens t,
                    token_limit = limit,
                    within_budget = (int (estimate_tokens t) \<le> limit),
                    section_count = length secs\<rparr>,
                 sections =
                   map (\<lambda>s. (sec_title s, sec_level s, sec_token_estimate s, sec_line_count s)) secs,
                 completeness = comp,
                 redundancies = reds,
                 recommendations = recs,
                 score = compute_score recs\<rparr>)))"

section \<open>The file system the scaffolder and the installer write to\<close>

text \<open>
  A path is the list of its components from a common root; a file system maps a path to
  a directory or to a file with its content, and nothing to a path that does not exist.
  Symbolic links, permissions and concurrent writers are outside the model: an
  operation fails exactly where the kind of an existing entry makes it fail.
\<close>

type_synonym path = "string list"

datatype 'c fnode = FDir | FFile 'c

type_synonym 'c filesystem = "path \<Rightarrow> 'c fnode option"

datatype os_error =
    FileNotFoundError path
  | FileExistsError path
  | NotADirectoryError path
  | IsADirectoryError path
  | RecursionError path

definition is_ffile :: "'c fnode option \<Rightarrow> bool" where
  "is_ffile n = (case n of Some (FFile c) \<Rightarrow> True | _ \<Rightarrow> False)"

text \<open>\<^verbatim>\<open>Path.exists()\<close>.\<close>

definition path_exists :: "'c filesystem \<Rightarrow> path \<Rightarrow> bool" where
  "path_exists fs p = (fs p \<noteq> None)"

text \<open>
  \<^verbatim>\<open>Path.mkdir(parents=True, exist_ok=True)\<close>: the path and every missing ancestor become
  directories; it fails where the path or an ancestor is a file.
\<close>

definition mkdir_parents :: "'c filesystem \<Rightarrow> path \<Rightarrow> os_error + 'c filesystem" where
  "mkdir_parents fs p =
     (if is_ffile (fs p) then Inl (FileExistsError p)
      else if list_ex (\<lambda>q. is_ffile (fs q)) (prefixes p) then Inl (NotADirectoryError p)
      else Inr (\<lambda>q. if prefix q p then Some FDir else fs q))"

text \<open>
  \<^verbatim>\<open>Path.write_text(c)\<close>: the parent must be a directory and the path not a directory.
\<close>

definition write_text :: "'c filesystem \<Rightarrow> path \<Rightarrow> 'c \<Rightarrow> os_error + 'c filesystem" where
  "write_text fs p c =
     (if p = [] \<or> fs p = Some FDir then Inl (IsADirectoryError p)
      else if is_ffile (fs (butlast p)) then Inl (NotADirectoryError p)
      else if fs (butlast p) \<noteq> Some FDir then Inl (FileNotFoundError p)
      else Inr (fs(p \<mapsto> FFile c)))"

text \<open>\<^verbatim>\<open>shutil.rmtree(p)\<close>: the directory and everything under it go; a file or a missing path fails.\<close>

definition rmtree :: "'c filesystem \<Rightarrow> path \<Rightarrow> os_error + 'c filesystem" where
  "rmtree fs p =
     (case fs p of
        None \<Rightarrow> Inl (FileNotFoundError p)
      | Some (FFile c) \<Rightarrow> Inl (NotADirectoryError p)
      | Some FDir \<Rightarrow> Inr (\<lambda>q. if prefix p q then None else fs q))"

text \<open>
  \<^verbatim>\<open>shutil.copytree(src, dst, ignore=shutil.ignore_patterns("__pycache__", "*.pyc", ".DS_Store"))\<close>.
  The source must be a directory; \<^verbatim>\<open>os.makedirs(dst)\<close> fails when the destination exists
  or an ancestor of it is a file. Below the destination stands a copy of every entry of
  the source no component of whose relative path matches an ignored pattern. Copying a
  tree into itself (the destination at or under the source) is modelled as a failure.
\<close>

definition ignored_name :: "string \<Rightarrow> bool" where
  "ignored_name n = (n = ''__pycache__'' \<or> endswith n ''.pyc'' \<or> n = ''.DS_Store'')"

definition copytree :: "'c filesystem \<Rightarrow> path \<Rightarrow> path \<Rightarrow> os_error + 'c filesystem" where
  "copytree fs src dst =
     (case fs src of
        None \<Rightarrow> Inl (FileNotFoundError src)
      | Some (FFile c) \<Rightarrow> Inl (NotADirectoryError src)
      | Some FDir \<Rightarrow>
          if prefix src dst then Inl (RecursionError dst)
          else if fs dst \<noteq> None then Inl (FileExistsError dst)
          else if list_ex (\<lambda>q. is_ffile (fs q)) (prefixes dst) then Inl (NotADirectoryError dst)
          else Inr (\<lambda>q. if prefix q dst then Some FDir
                         else if prefix dst q then
                           (let rel = drop (length dst) q in
                            if list_ex ignored_name rel then None else fs (src @ rel))
                         else fs q))"

text \<open>
  A step of a command that may raise: on an error the command ends with the error and
  the file system as it stood before the step (a failed step changes nothing); otherwise
  the rest runs on the new file system.
\<close>

definition step :: "os_error + 's \<Rightarrow> 's \<Rightarrow> ('s \<Rightarrow> (os_error + 'r) \<times> 's) \<Rightarrow> (os_error + 'r) \<times> 's" where
  "step r s0 k = (case r of Inl e \<Rightarrow> (Inl e, s0) | Inr s1 \<Rightarrow> k s1)"

section \<open>skill_scaffolder.py\<close>

text \<open>
  \<^verbatim>\<open>s.upper()\<close> on a character, for the code points below 256 whose upper case is one
  code point below 256 (all but 181, 223 and 255, which the model leaves as they are).
\<close>

definition upper_char :: "char \<Rightarrow> char" where
  "upper_char c =
     (let n = (of_char c :: nat) in
      if (97 \<le> n \<and> n \<le> 122) \<or> (224 \<le> n \<and> n \<le> 246) \<or> (248 \<le> n \<and> n \<le> 254)
      then char_of (n - 32) else c)"

text \<open>\<^verbatim>\<open>word.capitalize()\<close>.\<close>

definition capitalize :: "string \<Rightarrow> string" where
  "capitalize w = (case w of [] \<Rightarrow> [] | c # cs \<Rightarrow> upper_char c # lower cs)"

text \<open>\<^verbatim>\<open>sep.join(words)\<close>.\<close>

fun join_with :: "string \<Rightarrow> string list \<Rightarrow> string" where
  "join_with sep [] = []"
| "join_with sep [w] = w"
| "join_with sep (w # v # ws) = w @ sep @ join_with sep (v # ws)"

definition to_title_case :: "string \<Rightarrow> string" where
  "to_title_case name = join_with '' '' (map capitalize (split_char CHR ''-'' name))"

text \<open>\<^verbatim>\<open>c.isalnum()\<close> on the code points below 256: the word characters but the underscore.\<close>

definition is_alnum :: "char \<Rightarrow> bool" where
  "is_alnum c = (is_word c \<and> c \<noteq> CHR ''_'')"

definition validate_skill_name :: "string \<Rightarrow> string option" where
  "validate_skill_name name =
     (if name = [] then Some ''Skill name cannot be empty''
      else if \<not> list_all (\<lambda>c. is_alnum c \<or> c = CHR ''-'') name
      then Some ''Skill name must contain only alphanumeric characters and hyphens''
      else if startswith name ''-'' \<or> endswith name ''-''
      then Some ''Skill name must not start or end with a hyphen''
      else if contains name ''--''
      then Some ''Skill name must not contain consecutive hyphens''
      else None)"

text \<open>
  The three templates, each a text with named fields that \<^verbatim>\<open>str.format\<close> fills. A
  template takes the keyword arguments of the call, field names with their values in the
  order the code writes them, and gives the text. The function below takes the templates
  as an argument; the texts of the source are \<open>source_templates\<close>, further down.
\<close>

record templates =
  SKILL_MD_TEMPLATE :: "(string \<times> string) list \<Rightarrow> string"
  SCRIPT_TEMPLATE :: "(string \<times> string) list \<Rightarrow> string"
  REFERENCE_TEMPLATE :: "(string \<times> string) list \<Rightarrow> string"

text \<open>The result dictionary of \<^verbatim>\<open>create_skill_directory\<close>.\<close>

record created =
  created_path :: path
  created_name :: string
  created_domain :: string
  created_version :: string
  directories_created :: "path list"
  files_created :: "path list"

datatype scaffold_result = Scaffold_failed string path | Scaffold_ok created

text \<open>\<^verbatim>\<open>s.replace("-", "_")\<close>.\<close>

definition replace_hyphens :: "string \<Rightarrow> string" where
  "replace_hyphens s = map (\<lambda>c. if c = CHR ''-'' then CHR ''_'' else c) s"

text \<open>
  \<^verbatim>\<open>create_skill_directory\<close>. The skill name is one path component (the name validation
  of \<^verbatim>\<open>main\<close> admits no separator); \<open>today\<close> is \<^verbatim>\<open>datetime.now().strftime("%B %Y")\<close>.
  The result pairs what the function returns, or the error it raises, with the file
  system it leaves; a raise after a partial creation leaves what was created.
\<close>

definition create_skill_directory ::
  "templates \<Rightarrow> string \<Rightarrow> string filesystem \<Rightarrow> string \<Rightarrow> string \<Rightarrow> string \<Rightarrow> string \<Rightarrow> string \<Rightarrow>
   string \<Rightarrow> path \<Rightarrow> (os_error + scaffold_result) \<times> string filesystem" where
  "create_skill_directory tpl today fs name domain description version license_type category0 output_dir =
     (let skill_dir_path = output_dir @ [name];
          title = to_title_case name;
          category = (if category0 = [] then domain else category0);
          scripts_path = skill_dir_path @ [''scripts''];
          references_path = skill_dir_path @ [''references''];
          assets_path = skill_dir_path @ [''assets''];
          keywords = join_with '', '' (split_char CHR ''-'' name @ [domain, category]);
          skill_md_content =
            SKILL_MD_TEMPLATE tpl
              [(''name'', name), (''description'', description), (''license'', license_type),
               (''version'', version), (''category'', category), (''domain'', domain),
               (''title'', title),
               (''summary'', title @ '' skill with automation tools and reference guides.''),
               (''keywords'', keywords), (''date'', today)];
          skill_md_path = skill_dir_path @ [''SKILL.md''];
          script_name = replace_hyphens name @ ''_tool.py'';
          script_content =
            SCRIPT_TEMPLATE tpl
              [(''title'', title @ '' Tool''), (''description'', ''Automation tool for '' @ lower title),
               (''filename'', script_name)];
          script_path = skill_dir_path @ [''scripts'', script_name];
          ref_content =
            REFERENCE_TEMPLATE tpl
              [(''title'', title @ '' Guide''), (''topic'', lower title), (''date'', today)];
          ref_path = skill_dir_path @ [''references'', ''guide.md''];
          gitkeep_path = skill_dir_path @ [''assets'', ''.gitkeep'']
      in
      if path_exists fs skill_dir_path
      then (Inr (Scaffold_failed (''Directory already exists: '' @ join_path skill_dir_path)
                   skill_dir_path), fs)
      else
        step (mkdir_parents fs scripts_path) fs (\<lambda>fs1.
        step (mkdir_parents fs1 references_path) fs1 (\<lambda>fs2.
        step (mkdir_parents fs2 assets_path) fs2 (\<lambda>fs3.
        step (write_text fs3 skill_md_path skill_md_content) fs3 (\<lambda>fs4.
        step (write_text fs4 script_path script_content) fs4 (\<lambda>fs5.
        step (write_text fs5 ref_path ref_content) fs5 (\<lambda>fs6.
        step (write_text fs6 gitkeep_path []) fs6 (\<lambda>fs7.
          (Inr (Scaffold_ok
             \<lparr>created_path = skill_dir_path, created_name = name, created_domain = domain,
              created_version = version,
              directories_created = [scripts_path, references_path, assets_path],
              files_created = [skill_md_path, script_path, ref_path, gitkeep_path]\<rparr>), fs7)))))))))"

section \<open>skill-installer.py\<close>

subsection \<open>The manifest\<close>

text \<open>
  The manifest is the dictionary \<^verbatim>\<open>.claude-skills.json\<close> holds: the installed skills by
  name, in the order of the JSON object, each with the five fields \<^verbatim>\<open>cmd_install\<close> writes,
  the global flag and the source. A skill path is the list of its components
  (\<^verbatim>\<open>group/skill\<close>).
\<close>

record skill_entry =
  entry_group :: string
  entry_path :: path
  installed_at :: string
  updated_at :: string
  entry_auto_update :: bool

record manifest =
  installed :: "(string \<times> skill_entry) list"
  auto_update :: bool
  source :: string

definition REPO_URL :: string where
  "REPO_URL = ''https://github.com/borghei/Claude-Skills''"

definition MANIFEST_FILE :: string where
  "MANIFEST_FILE = ''.claude-skills.json''"

definition DEFAULT_AGENT :: string where
  "DEFAULT_AGENT = ''project''"

text \<open>
  A file holds the JSON text of a manifest, or other data (a skill's files, or a
  manifest file \<^verbatim>\<open>json.loads\<close> rejects). JSON texts of another shape are outside the model.
\<close>

datatype fcontent = Manifest_json manifest | Data string

text \<open>
  \<^verbatim>\<open>AGENT_DIRS\<close>, with \<^verbatim>\<open>Path.home()\<close> and the working directory the relative paths start from.
\<close>

definition AGENT_DIRS :: "path \<Rightarrow> path \<Rightarrow> (string \<times> path) list" where
  "AGENT_DIRS home cwd =
     [(''claude'', home @ [''.claude'', ''skills'']),
      (''cursor'', cwd @ [''.cursor'', ''skills'']),
      (''vscode'', cwd @ [''.github'', ''skills'']),
      (''copilot'', cwd @ [''.github'', ''skills'']),
      (''codex'', home @ [''.codex'', ''skills'']),
      (''goose'', home @ [''.config'', ''goose'', ''skills'']),
      (''project'', cwd @ [''.skills''])]"

text \<open>\<^verbatim>\<open>AGENT_DIRS.get(agent, AGENT_DIRS[DEFAULT_AGENT])\<close>.\<close>

definition get_target_dir :: "path \<Rightarrow> path \<Rightarrow> string \<Rightarrow> path" where
  "get_target_dir home cwd agent =
     (case map_of (AGENT_DIRS home cwd) agent of
        Some p \<Rightarrow> p
      | None \<Rightarrow> cwd @ [''.skills''])"

text \<open>\<^verbatim>\<open>args.agent or DEFAULT_AGENT\<close>.\<close>

definition agent_or_default :: "string option \<Rightarrow> string" where
  "agent_or_default a = (if truthy a then the a else DEFAULT_AGENT)"

definition default_manifest :: manifest where
  "default_manifest = \<lparr>installed = [], auto_update = False, source = REPO_URL\<rparr>"

text \<open>
  \<^verbatim>\<open>load_manifest\<close>: the parsed file, or the default when the file is missing or reading or
  parsing it raises (\<^verbatim>\<open>except Exception: pass\<close>).
\<close>

definition load_manifest :: "fcontent filesystem \<Rightarrow> path \<Rightarrow> manifest" where
  "load_manifest fs target_dir =
     (case fs (target_dir @ [MANIFEST_FILE]) of
        Some (FFile (Manifest_json m)) \<Rightarrow> m
      | _ \<Rightarrow> default_manifest)"

text \<open>
  \<^verbatim>\<open>save_manifest\<close>: \<^verbatim>\<open>manifest_path.parent.mkdir(parents=True, exist_ok=True)\<close>, then
  \<^verbatim>\<open>write_text\<close>. As every command below, it gives the value (or the error raised) and
  the file system it leaves.
\<close>

definition save_manifest ::
  "fcontent filesystem \<Rightarrow> path \<Rightarrow> manifest \<Rightarrow> (os_error + unit) \<times> fcontent filesystem" where
  "save_manifest fs target_dir m =
     step (mkdir_parents fs target_dir) fs (\<lambda>fs1.
     step (write_text fs1 (target_dir @ [MANIFEST_FILE]) (Manifest_json m)) fs1 (\<lambda>fs2.
       (Inr (), fs2)))"

subsection \<open>discover_skills\<close>

text \<open>
  The skills by group, both dictionaries in insertion order. Of a skill's entry only
  \<^verbatim>\<open>"path"\<close> is kept: the description and the three \<^verbatim>\<open>has_...\<close> flags are read by
  \<^verbatim>\<open>cmd_list\<close> alone, and computing them raises nothing. The function gets the list
  \<^verbatim>\<open>sorted(repo_root.rglob("SKILL.md"))\<close>, each path relative to the repository root.
\<close>

type_synonym skills = "(string \<times> (string \<times> path) list) list"

definition discover_step :: "skills \<Rightarrow> path \<Rightarrow> skills" where
  "discover_step sk parts =
     (if ''assets'' \<in> set parts \<or> ''node_modules'' \<in> set parts \<or> ''.git'' \<in> set parts then sk
      else if length parts < 2 then sk
      else
        let grp = parts ! 0;
            skill = parts ! 1;
            group_skills = (case map_of sk grp of None \<Rightarrow> [] | Some g \<Rightarrow> g)
        in AList.update grp (AList.update skill [grp, skill] group_skills) sk)"

definition discover_skills :: "path list \<Rightarrow> skills" where
  "discover_skills skill_mds = foldl discover_step [] skill_mds"

text \<open>
  \<^verbatim>\<open>
    for group, group_skills in skills.items():
        if skill_name in group_skills:
            found_group = group
            found_info = group_skills[skill_name]
            break
  \<close>
\<close>

fun find_skill :: "skills \<Rightarrow> string \<Rightarrow> (string \<times> path) option" where
  "find_skill [] name = None"
| "find_skill ((grp, group_skills) # rest) name =
     (case map_of group_skills name of
        Some p \<Rightarrow> Some (grp, p)
      | None \<Rightarrow> find_skill rest name)"

subsection \<open>copy_skill\<close>

definition copy_skill ::
  "fcontent filesystem \<Rightarrow> path \<Rightarrow> path \<Rightarrow> path \<Rightarrow> (os_error + path) \<times> fcontent filesystem" where
  "copy_skill fs root rel_path target_dir =
     (let src = root @ rel_path;
          dest = target_dir @ [last rel_path]
      in step (if path_exists fs dest then rmtree fs dest else Inr fs) fs (\<lambda>fs1.
         step (copytree fs1 src dest) fs1 (\<lambda>fs2.
           (Inr dest, fs2))))"

subsection \<open>The commands\<close>

text \<open>
  The arguments \<^verbatim>\<open>argparse\<close> gives the two commands, and where the process runs: the
  repository root (\<^verbatim>\<open>find_repo_root\<close>), the home and the working directory. A command
  returns, or leaves through \<^verbatim>\<open>sys.exit\<close> with a status, or raises. What it prints is
  not modelled.
\<close>

record install_args =
  skill_name_arg :: string
  agent_arg :: "string option"
  auto_update_arg :: bool
  force_arg :: bool
  json_arg :: bool

record process_env =
  repo_root :: path
  home_dir :: path
  work_dir :: path

datatype outcome = Returned | Exited nat

text \<open>
  The one-per-group test of \<^verbatim>\<open>cmd_install\<close>:
  \<^verbatim>\<open>installed_info.get("group") == found_group and installed_name != skill_name\<close>
  for some installed skill.
\<close>

definition group_conflict :: "manifest \<Rightarrow> string \<Rightarrow> string \<Rightarrow> bool" where
  "group_conflict m found_group name =
     list_ex (\<lambda>(installed_name, installed_info).
                entry_group installed_info = found_group \<and> installed_name \<noteq> name)
       (installed m)"

definition cmd_install ::
  "process_env \<Rightarrow> path list \<Rightarrow> string \<Rightarrow> install_args \<Rightarrow> fcontent filesystem \<Rightarrow>
   (os_error + outcome) \<times> fcontent filesystem" where
  "cmd_install env skill_mds now args fs =
     (let name = skill_name_arg args;
          agent = agent_or_default (agent_arg args);
          target_dir = get_target_dir (home_dir env) (work_dir env) agent;
          found = find_skill (discover_skills skill_mds) name
      in case found of
           None \<Rightarrow> (Inr (Exited 1), fs)
         | Some (found_group, found_path) \<Rightarrow>
             (let m = load_manifest fs target_dir in
              if group_conflict m found_group name \<and> \<not> force_arg args then (Inr (Exited 1), fs)
              else
                (case copy_skill fs (repo_root env) found_path target_dir of
                   (Inl e, fs1) \<Rightarrow> (Inl e, fs1)
                 | (Inr dest, fs1) \<Rightarrow>
                     (let m' = m\<lparr>installed :=
                                   AList.update name
                                     \<lparr>entry_group = found_group, entry_path = found_path,
                                      installed_at = now, updated_at = now,
                                      entry_auto_update = auto_update_arg args\<rparr>
                                     (installed m),
                                 auto_update := (if auto_update_arg args then True else auto_update m)\<rparr>
                      in case save_manifest fs1 target_dir m' of
                           (Inl e, fs2) \<Rightarrow> (Inl e, fs2)
                         | (Inr u, fs2) \<Rightarrow> (Inr Returned, fs2)))))"


subsection \<open>Notions the statements about the installer use\<close>

text \<open>Every stored skill path is the group followed by the skill.\<close>

definition paths_ok :: "skills \<Rightarrow> bool" where
  "paths_ok sk = (\<forall>grp gs s p. (grp, gs) \<in> set sk \<longrightarrow> (s, p) \<in> set gs \<longrightarrow> p = [grp, s])"

subsection \<open>The templates of the source\<close>

text \<open>
  The three template texts of \<^verbatim>\<open>skill_scaffolder.py\<close> after \<^verbatim>\<open>textwrap.dedent\<close>, line by
  line, with \<^verbatim>\<open>str.format\<close> applied: a field \<^verbatim>\<open>{name}\<close> is the value of the keyword
  argument, a doubled brace is a brace.
\<close>

definition SKILL_MD_TEMPLATE_text :: "(string \<times> string) list \<Rightarrow> string" where
  "SKILL_MD_TEMPLATE_text kw =
      ''---'' @ [nl] @
      ''name: '' @ get_str kw ''name'' @ [nl] @
      ''description: >-'' @ [nl] @
      ''  '' @ get_str kw ''description'' @ [nl] @
      ''license: '' @ get_str kw ''license'' @ [nl] @
      ''metadata:'' @ [nl] @
      ''  version: '' @ get_str kw ''version'' @ [nl] @
      ''  category: '' @ get_str kw ''category'' @ [nl] @
      ''  domain: '' @ get_str kw ''domain'' @ [nl] @
      ''---'' @ [nl] @
      [nl] @
      ''# '' @ get_str kw ''title'' @ [nl] @
      [nl] @
      get_str kw ''summary'' @ [nl] @
      [nl] @
      ''## Keywords'' @ [nl] @
      [nl] @
      get_str kw ''keywords'' @ [nl] @
      [nl] @
      ''---'' @ [nl] @
      [nl] @
      ''## Table of Contents'' @ [nl] @
      [nl] @
      ''- [Quick Start](#quick-start)'' @ [nl] @
      ''- [Tools Overview](#tools-overview)'' @ [nl] @
      ''- [Workflows](#workflows)'' @ [nl] @
      ''- [Reference Documentation](#reference-documentation)'' @ [nl] @
      [nl] @
      ''---'' @ [nl] @
      [nl] @
      ''## Quick Start'' @ [nl] @
      [nl] @
      [CHR 0x60] @ [CHR 0x60] @ [CHR 0x60] @ ''bash'' @ [nl] @
      ''# TODO: Add quick start commands'' @ [nl] @
      ''python scripts/example_tool.py --help'' @ [nl] @
      [CHR 0x60] @ [CHR 0x60] @ [CHR 0x60] @ [nl] @
      [nl] @
      ''---'' @ [nl] @
      [nl] @
      ''## Tools Overview'' @ [nl] @
      [nl] @
      ''### 1. Example Tool'' @ [nl] @
      [nl] @
      ''Description of what this tool does.'' @ [nl] @
      [nl] @
      [CHR 0x60] @ [CHR 0x60] @ [CHR 0x60] @ ''bash'' @ [nl] @
      ''python scripts/example_tool.py input --option value'' @ [nl] @
      ''python scripts/example_tool.py input --json'' @ [nl] @
      [CHR 0x60] @ [CHR 0x60] @ [CHR 0x60] @ [nl] @
      [nl] @
      ''| Parameter | Description |'' @ [nl] @
      ''|-----------|-------------|'' @ [nl] @
      ''| '' @ [CHR 0x60] @ ''input'' @ [CHR 0x60] @ '' | Description of input parameter |'' @ [nl] @
      ''| '' @ [CHR 0x60] @ ''--option'' @ [CHR 0x60] @ '' | Description of option |'' @ [nl] @
      ''| '' @ [CHR 0x60] @ ''--json'' @ [CHR 0x60] @ '' | Output in JSON format |'' @ [nl] @
      [nl] @
      ''---'' @ [nl] @
      [nl] @
      ''## Workflows'' @ [nl] @
      [nl] @
      ''### Workflow 1: Primary Workflow'' @ [nl] @
      [nl] @
      ''**Step 1: Description**'' @ [nl] @
      [nl] @
      [CHR 0x60] @ [CHR 0x60] @ [CHR 0x60] @ ''bash'' @ [nl] @
      ''# Command'' @ [nl] @
      [CHR 0x60] @ [CHR 0x60] @ [CHR 0x60] @ [nl] @
      [nl] @
      ''**Step 2: Description**'' @ [nl] @
      [nl] @
      [CHR 0x60] @ [CHR 0x60] @ [CHR 0x60] @ ''bash'' @ [nl] @
      ''# Command'' @ [nl] @
      [CHR 0x60] @ [CHR 0x60] @ [CHR 0x60] @ [nl] @
      [nl] @
      ''---'' @ [nl] @
      [nl] @
      ''## Reference Documentation'' @ [nl] @
      [nl] @
      ''| Document | Path | Description |'' @ [nl] @
      ''|----------|------|-------------|'' @ [nl] @
      ''| Guide Name | [references/guide.md](references/guide.md) | Description |'' @ [nl] @
      [nl] @
      ''---'' @ [nl] @
      [nl] @
      ''**Last Updated:** '' @ get_str kw ''date'' @ [nl] @
      ''**Version:** '' @ get_str kw ''version'' @ [nl]"

definition SCRIPT_TEMPLATE_text :: "(string \<times> string) list \<Rightarrow> string" where
  "SCRIPT_TEMPLATE_text kw =
      ''#!/usr/bin/env python3'' @ [nl] @
      [CHR 0x22] @ [CHR 0x22] @ [CHR 0x22] @ [nl] @
      get_str kw ''title'' @ '' - '' @ get_str kw ''description'' @ [nl] @
      [nl] @
      ''Usage:'' @ [nl] @
      ''    python '' @ get_str kw ''filename'' @ '' --help'' @ [nl] @
      ''    python '' @ get_str kw ''filename'' @ '' input_arg'' @ [nl] @
      ''    python '' @ get_str kw ''filename'' @ '' input_arg --json'' @ [nl] @
      [CHR 0x22] @ [CHR 0x22] @ [CHR 0x22] @ [nl] @
      [nl] @
      ''import argparse'' @ [nl] @
      ''import json'' @ [nl] @
      ''import sys'' @ [nl] @
      ''from pathlib import Path'' @ [nl] @
      [nl] @
      [nl] @
      ''def main():'' @ [nl] @
      ''    parser = argparse.ArgumentParser('' @ [nl] @
      ''        description='' @ [CHR 0x22] @ get_str kw ''description'' @ [CHR 0x22] @ '','' @ [nl] @
      ''        formatter_class=argparse.RawDescriptionHelpFormatter,'' @ [nl] @
      ''        epilog='' @ [CHR 0x22] @ [CHR 0x22] @ [CHR 0x22] @ [nl] @
      ''Examples:'' @ [nl] @
      ''    python '' @ get_str kw ''filename'' @ '' example_input'' @ [nl] @
      ''    python '' @ get_str kw ''filename'' @ '' example_input --json'' @ [nl] @
      ''        '' @ [CHR 0x22] @ [CHR 0x22] @ [CHR 0x22] @ '','' @ [nl] @
      ''    )'' @ [nl] @
      ''    parser.add_argument('' @ [CHR 0x22] @ ''input'' @ [CHR 0x22] @ '', help='' @ [CHR 0x22] @ ''Input to process'' @ [CHR 0x22] @ '')'' @ [nl] @
      ''    parser.add_argument('' @ [CHR 0x22] @ ''--json'' @ [CHR 0x22] @ '', action='' @ [CHR 0x22] @ ''store_true'' @ [CHR 0x22] @ '', help='' @ [CHR 0x22] @ ''Output in JSON format'' @ [CHR 0x22] @ '')'' @ [nl] @
      ''    args = parser.parse_args()'' @ [nl] @
      [nl] @
      ''    result = {'' @ [CHR 0x22] @ ''input'' @ [CHR 0x22] @ '': args.input, '' @ [CHR 0x22] @ ''status'' @ [CHR 0x22] @ '': '' @ [CHR 0x22] @ ''success'' @ [CHR 0x22] @ '', '' @ [CHR 0x22] @ ''message'' @ [CHR 0x22] @ '': '' @ [CHR 0x22] @ ''TODO: Implement'' @ [CHR 0x22] @ ''}'' @ [nl] @
      [nl] @
      ''    if args.json:'' @ [nl] @
      ''        print(json.dumps(result, indent=2))'' @ [nl] @
      ''    else:'' @ [nl] @
      ''        print(f'' @ [CHR 0x22] @ ''Input: {'' @ ''result['' @ [CHR 0x27] @ ''input'' @ [CHR 0x27] @ '']}'' @ [CHR 0x22] @ '')'' @ [nl] @
      ''        print(f'' @ [CHR 0x22] @ ''Status: {'' @ ''result['' @ [CHR 0x27] @ ''status'' @ [CHR 0x27] @ '']}'' @ [CHR 0x22] @ '')'' @ [nl] @
      ''        print(f'' @ [CHR 0x22] @ ''Message: {'' @ ''result['' @ [CHR 0x27] @ ''message'' @ [CHR 0x27] @ '']}'' @ [CHR 0x22] @ '')'' @ [nl] @
      [nl] @
      [nl] @
      ''if __name__ == '' @ [CHR 0x22] @ ''__main__'' @ [CHR 0x22] @ '':'' @ [nl] @
      ''    main()'' @ [nl]"

definition REFERENCE_TEMPLATE_text :: "(string \<times> string) list \<Rightarrow> string" where
  "REFERENCE_TEMPLATE_text kw =
      ''# '' @ get_str kw ''title'' @ [nl] @
      [nl] @
      ''## Overview'' @ [nl] @
      [nl] @
      ''This reference guide covers '' @ get_str kw ''topic'' @ ''.'' @ [nl] @
      [nl] @
      ''## Key Concepts'' @ [nl] @
      [nl] @
      ''### Concept 1'' @ [nl] @
      [nl] @
      ''Description and details.'' @ [nl] @
      [nl] @
      ''### Concept 2'' @ [nl] @
      [nl] @
      ''Description and details.'' @ [nl] @
      [nl] @
      ''## Best Practices'' @ [nl] @
      [nl] @
      ''1. **Practice 1** -- Explanation'' @ [nl] @
      ''2. **Practice 2** -- Explanation'' @ [nl] @
      ''3. **Practice 3** -- Explanation'' @ [nl] @
      [nl] @
      ''## Examples'' @ [nl] @
      [nl] @
      ''### Example 1'' @ [nl] @
      [nl] @
      [CHR 0x60] @ [CHR 0x60] @ [CHR 0x60] @ [nl] @
      ''Example content'' @ [nl] @
      [CHR 0x60] @ [CHR 0x60] @ [CHR 0x60] @ [nl] @
      [nl] @
      ''## Additional Resources'' @ [nl] @
      [nl] @
      ''- Resource 1'' @ [nl] @
      ''- Resource 2'' @ [nl] @
      [nl] @
      ''---'' @ [nl] @
      [nl] @
      ''**Last Updated:** '' @ get_str kw ''date'' @ [nl]"

definition source_templates :: templates where
  "source_templates =
     \<lparr>SKILL_MD_TEMPLATE = SKILL_MD_TEMPLATE_text, SCRIPT_TEMPLATE = SCRIPT_TEMPLATE_text,
      REFERENCE_TEMPLATE = REFERENCE_TEMPLATE_text\<rparr>"

subsection \<open>Example states\<close>

text \<open>
  A repository at \<^verbatim>\<open>/repo\<close> with the skill \<^verbatim>\<open>engineering/alpha\<close>, a working directory
  \<^verbatim>\<open>/work\<close>, and the installation of \<^verbatim>\<open>alpha\<close> for the default agent.
\<close>

definition example_env :: process_env where
  "example_env = \<lparr>repo_root = [''repo''], home_dir = [''home''], work_dir = [''work'']\<rparr>"

definition example_skill_mds :: "path list" where
  "example_skill_mds = [[''engineering'', ''alpha'', ''SKILL.md'']]"

definition example_fs :: "fcontent filesystem" where
  "example_fs =
     (\<lambda>q. if q \<in> set [[], [''repo''], [''repo'', ''engineering''], [''repo'', ''engineering'', ''alpha''],
                        [''work'']]
          then Some FDir
          else if q = [''repo'', ''engineering'', ''alpha'', ''SKILL.md''] then Some (FFile (Data ''# alpha''))
          else None)"

definition example_args :: install_args where
  "example_args =
     \<lparr>skill_name_arg = ''alpha'', agent_arg = None, auto_update_arg = False, force_arg = False,
      json_arg = False\<rparr>"

text \<open>The same state after \<^verbatim>\<open>engineering/beta\<close> was installed: the manifest records it.\<close>

definition beta_manifest :: manifest where
  "beta_manifest =
     \<lparr>installed = [(''beta'', \<lparr>entry_group = ''engineering'', entry_path = [''engineering'', ''beta''],
                       installed_at = ''2025-01-01T00:00:00+00:00'',
                       updated_at = ''2025-01-01T00:00:00+00:00'', entry_auto_update = False\<rparr>)],
      auto_update = False, source = REPO_URL\<rparr>"

definition example_fs_beta :: "fcontent filesystem" where
  "example_fs_beta =
     (\<lambda>q. if q \<in> set [[''work'', ''.skills''], [''work'', ''.skills'', ''beta'']] then Some FDir
          else if q = [''work'', ''.skills'', ''.claude-skills.json'']
          then Some (FFile (Manifest_json beta_manifest))
          else example_fs q)"

text \<open>An output directory \<^verbatim>\<open>/skills\<close>, empty, and the same with \<^verbatim>\<open>foo-bar\<close> in it.\<close>

definition example_out_fs :: "string filesystem" where
  "example_out_fs = (\<lambda>q. if q = [] \<or> q = [''skills''] then Some FDir else None)"

definition example_out_fs_taken :: "string filesystem" where
  "example_out_fs_taken = example_out_fs([''skills'', ''foo-bar''] \<mapsto> FDir)"

section \<open>pipeline_analyzer.py\<close>

subsection \<open>The regular expression library\<close>








subsection \<open>Finding\<close>

record Finding =
  f_severity :: string
  f_category :: string
  f_title :: string
  f_description :: string
  f_recommendation :: string
  estimated_savings :: "string option"

definition mk_finding ::
  "string \<Rightarrow> string \<Rightarrow> string \<Rightarrow> string \<Rightarrow> string \<Rightarrow> string option \<Rightarrow> Finding" where
  "mk_finding s c t d r e =
     \<lparr>f_severity = s, f_category = c, f_title = t, f_description = d, f_recommendation = r,
      estimated_savings = e\<rparr>"


subsection \<open>_extract_jobs\<close>






subsection \<open>_extract_section\<close>



subsection \<open>_trace_chain\<close>



subsection \<open>analyze_workflow_file\<close>

text \<open>
  What \<^verbatim>\<open>filepath.read_text(encoding="utf-8")\<close> gives: the content, or the text of the
  \<^verbatim>\<open>OSError\<close> or \<^verbatim>\<open>UnicodeDecodeError\<close> it raises.
\<close>

datatype read_result = Readable string | Unreadable string




















subsection \<open>Notions the statements about the analyzer use\<close>




section \<open>The command lines and exit statuses of the two tools\<close>

subsection \<open>The argument parser\<close>



subsection \<open>main of cross_platform_validator.py\<close>





subsection \<open>main of pipeline_analyzer.py\<close>




text \<open>
  What \<^verbatim>\<open>main\<close> finds at the path: nothing, a file (with its suffix, the text and name
  of its path and what reading it gives), a directory (with its workflow files, those
  matching \<^verbatim>\<open>*.yml\<close> sorted and then those matching \<^verbatim>\<open>*.yaml\<close> sorted), or something else.
\<close>

datatype target =
    Target_missing
  | Target_file string string string read_result
  | Target_dir "(string \<times> string \<times> read_result) list"
  | Target_other



subsection \<open>Example invocations\<close>





section \<open>Properties of the frontmatter parsers\<close>















section \<open>Properties of validate_skill\<close>

lemma sev_ok_mk [simp]:
  "sev_ok (mk_result_default c p ok m)"
  "sev_ok (mk_result c p ok m ''error'')"
  "sev_ok (mk_result c p ok m ''warning'')"
  "sev_ok (mk_result c p ok m ''info'')"
  by (simp_all add: sev_ok_def mk_result_default_def mk_result_def)

lemma sev_check1: "list_all sev_ok (check1 d)"
  by (simp add: check1_def)

lemma sev_check2: "list_all sev_ok (snd (check2 d))"
  by (simp add: check2_def split: option.splits node.splits content.splits prod.splits)

lemma sev_check3: "list_all sev_ok (snd (check3 d f))"
  by (simp add: check3_def)

lemma sev_check4: "list_all sev_ok (check4 f)"
  by (simp add: check4_def Let_def)

lemma sev_check5: "list_all sev_ok (check5 f)"
  by (simp add: check5_def)

lemma sev_check6: "list_all sev_ok (check6 d)"
  by (simp add: check6_def)

lemma sev_check7: "list_all sev_ok (check7 d)"
  by (simp add: check7_def)

lemma sev_check8: "list_all sev_ok (check8 d)"
  by (simp add: check8_def)

lemma sev_check9: "check9 d = Inr c9 \<Longrightarrow> list_all sev_ok c9"
  by (auto simp add: check9_def Let_def split: option.splits node.splits content.splits if_splits)

lemma sev_check10: "list_all sev_ok (check10 d)"
  by (simp add: check10_def)

lemma sev_check11: "list_all sev_ok (snd (check11 d))"
  by (simp add: check11_def split: option.splits node.splits content.splits prod.splits)

lemma sev_check12: "list_all sev_ok (check12 d y n)"
  by (simp add: check12_def Let_def)

lemma sev_check13: "list_all sev_ok (check13 d y)"
  by (simp add: check13_def)

lemma sev_check14: "list_all sev_ok (check14 d y)"
  by (simp add: check14_def Let_def)

lemma sev_check15_tool: "list_all sev_ok (check15_tool d t)"
  by (simp add: check15_tool_def split: option.splits)

lemma sev_concat:
  "(\<And>t. list_all sev_ok (f t)) \<Longrightarrow> list_all sev_ok (concat (map f ts))"
  by (induction ts) simp_all

lemma sev_check15: "list_all sev_ok (check15 d y)"
  unfolding check15_def by (rule sev_concat) (rule sev_check15_tool)

lemma sev_check16_loop: "list_all sev_ok (check16_loop es)"
  by (induction es rule: check16_loop.induct) (auto split: node.splits content.splits)

lemma sev_check16: "list_all sev_ok (check16 d)"
  by (simp add: check16_def sev_check16_loop)

lemma sev_check17: "list_all sev_ok (check17 d)"
  by (simp add: check17_def)

text \<open>The four lists of the summary partition a list of checks with the three severities.\<close>

lemma partition_counts:
  "list_all sev_ok cs \<Longrightarrow>
   length (filter passed cs) + length (failed_with ''error'' cs) +
   length (failed_with ''warning'' cs) + length (failed_with ''info'' cs) = length cs"
  by (induction cs) (auto simp add: failed_with_def sev_ok_def)

text \<open>A returned report is built from the checks in their order; only Check 9 can raise.\<close>

lemma validate_skill_Inr:
  "validate_skill d strict = Inr r \<Longrightarrow>
   \<exists>c9. check9 d = Inr c9 \<and>
     r = build_report (fst (check3 d (fst (check2 d)))) (dir_path d) strict
           (check1 d @ snd (check2 d) @ snd (check3 d (fst (check2 d))) @ check4 (fst (check2 d)) @
            check5 (fst (check2 d)) @ check6 d @ check7 d @ check8 d @ c9 @ check10 d @
            snd (check11 d) @ check12 d (fst (check11 d)) (fst (check3 d (fst (check2 d)))) @
            check13 d (fst (check11 d)) @ check14 d (fst (check11 d)) @ check15 d (fst (check11 d)) @
            check16 d @ check17 d)"
  by (auto simp add: validate_skill_def Let_def split: sum.splits)

lemma validate_skill_returns_iff:
  "(\<exists>r. validate_skill d strict = Inr r) \<longleftrightarrow>
   (\<forall>e n. map_of (entries d) [''requirements.txt''] \<noteq> Some (File (Undecodable e) n))"
  by (auto simp add: validate_skill_def check9_def Let_def
           split: sum.splits option.splits node.splits content.splits)

lemma validate_skill_sev:
  assumes "validate_skill d strict = Inr r"
  shows "list_all sev_ok (checks r)"
proof -
  from validate_skill_Inr [OF assms] obtain c9 where c9: "check9 d = Inr c9"
    and r: "r = build_report (fst (check3 d (fst (check2 d)))) (dir_path d) strict
           (check1 d @ snd (check2 d) @ snd (check3 d (fst (check2 d))) @ check4 (fst (check2 d)) @
            check5 (fst (check2 d)) @ check6 d @ check7 d @ check8 d @ c9 @ check10 d @
            snd (check11 d) @ check12 d (fst (check11 d)) (fst (check3 d (fst (check2 d)))) @
            check13 d (fst (check11 d)) @ check14 d (fst (check11 d)) @ check15 d (fst (check11 d)) @
            check16 d @ check17 d)"
    by blast
  show ?thesis
    unfolding r build_report_def Let_def
    by (simp add: sev_check1 sev_check2 sev_check3 sev_check4 sev_check5 sev_check6 sev_check7
        sev_check8 sev_check9 [OF c9] sev_check10 sev_check11 sev_check12 sev_check13 sev_check14
        sev_check15 sev_check16 sev_check17)
qed

lemma validate_skill_is_build_report:
  "validate_skill d strict = Inr r \<Longrightarrow>
   r = build_report (skill_name r) (skill_path r) strict (checks r)"
  by (drule validate_skill_Inr) (auto simp add: build_report_def Let_def)

lemma build_report_compatible:
  "compatible (build_report name path strict cs) \<longleftrightarrow>
   length (filter (\<lambda>c. \<not> passed c \<and> severity c = ''error'') cs) = 0 \<and>
   (strict \<longrightarrow> length (filter (\<lambda>c. \<not> passed c \<and> severity c = ''warning'') cs) = 0)"
  by (simp add: build_report_def failed_with_def Let_def)

lemma build_report_summary:
  "errors (summary (build_report name path strict cs)) =
     length (filter (\<lambda>c. \<not> passed c \<and> severity c = ''error'') cs)"
  "warnings (summary (build_report name path strict cs)) =
     length (filter (\<lambda>c. \<not> passed c \<and> severity c = ''warning'') cs)"
  "info (summary (build_report name path strict cs)) =
     length (filter (\<lambda>c. \<not> passed c \<and> severity c = ''info'') cs)"
  "passed_count (summary (build_report name path strict cs)) = length (filter passed cs)"
  "total_checks (summary (build_report name path strict cs)) = length cs"
  "checks (build_report name path strict cs) = cs"
  by (simp_all add: build_report_def failed_with_def Let_def)

lemma empty_dir_report: "\<exists>r. validate_skill empty_skill_dir strict = Inr r"
  using validate_skill_returns_iff [of empty_skill_dir strict]
  by (simp add: empty_skill_dir_def)

text \<open>
  C8. For every skill directory and every resulting list of checks, the report's
  \<^verbatim>\<open>compatible\<close> field is true if and only if no failed check has severity \<^verbatim>\<open>error\<close> and,
  in strict mode, no failed check has severity \<^verbatim>\<open>warning\<close> either. The first conjunct is
  the statement for the reports \<^verbatim>\<open>validate_skill\<close> returns, with the counts the summary
  shows; the second is the same for any list of checks the report is built from.
\<close>

theorem validate_skill_compatible_iff:
  "(validate_skill d strict = Inr r \<longrightarrow>
      (compatible r \<longleftrightarrow>
         length (filter (\<lambda>c. \<not> passed c \<and> severity c = ''error'') (checks r)) = 0 \<and>
         (strict \<longrightarrow> length (filter (\<lambda>c. \<not> passed c \<and> severity c = ''warning'') (checks r)) = 0)) \<and>
      errors (summary r) = length (filter (\<lambda>c. \<not> passed c \<and> severity c = ''error'') (checks r)) \<and>
      warnings (summary r) = length (filter (\<lambda>c. \<not> passed c \<and> severity c = ''warning'') (checks r))) \<and>
   (compatible (build_report name path strict cs) \<longleftrightarrow>
      length (filter (\<lambda>c. \<not> passed c \<and> severity c = ''error'') cs) = 0 \<and>
      (strict \<longrightarrow> length (filter (\<lambda>c. \<not> passed c \<and> severity c = ''warning'') cs) = 0))"
proof (intro conjI impI)
  assume v: "validate_skill d strict = Inr r"
  then obtain n p where r: "r = build_report n p strict (checks r)"
    using validate_skill_is_build_report by blast
  show "compatible r \<longleftrightarrow>
         length (filter (\<lambda>c. \<not> passed c \<and> severity c = ''error'') (checks r)) = 0 \<and>
         (strict \<longrightarrow> length (filter (\<lambda>c. \<not> passed c \<and> severity c = ''warning'') (checks r)) = 0)"
    by (subst r) (rule build_report_compatible)
  show "errors (summary r) = length (filter (\<lambda>c. \<not> passed c \<and> severity c = ''error'') (checks r))"
    by (subst r) (rule build_report_summary)
  show "warnings (summary r) = length (filter (\<lambda>c. \<not> passed c \<and> severity c = ''warning'') (checks r))"
    by (subst r) (rule build_report_summary)
next
  show "compatible (build_report name path strict cs) \<longleftrightarrow>
      length (filter (\<lambda>c. \<not> passed c \<and> severity c = ''error'') cs) = 0 \<and>
      (strict \<longrightarrow> length (filter (\<lambda>c. \<not> passed c \<and> severity c = ''warning'') cs) = 0)"
    by (rule build_report_compatible)
qed

theorem validate_skill_compatible_iff_witness:
  "\<exists>r. validate_skill empty_skill_dir True = Inr r \<and>
       compatible r =
         (length (filter (\<lambda>c. \<not> passed c \<and> severity c = ''error'') (checks r)) = 0 \<and>
          length (filter (\<lambda>c. \<not> passed c \<and> severity c = ''warning'') (checks r)) = 0)"
proof -
  obtain r where r: "validate_skill empty_skill_dir True = Inr r"
    using empty_dir_report by blast
  show ?thesis
    using validate_skill_compatible_iff [of empty_skill_dir True r] r by auto
qed

text \<open>
  C9. For every report \<^verbatim>\<open>validate_skill\<close> returns, the summary counts partition the list
  of checks: passed + errors + warnings + info = total_checks, which is the length of the
  list, and every check has severity \<^verbatim>\<open>error\<close>, \<^verbatim>\<open>warning\<close> or \<^verbatim>\<open>info\<close>.
\<close>

theorem validate_skill_summary_partition:
  "validate_skill d strict = Inr r \<Longrightarrow>
   passed_count (summary r) + errors (summary r) + warnings (summary r) + info (summary r)
     = total_checks (summary r) \<and>
   total_checks (summary r) = length (checks r) \<and>
   list_all (\<lambda>c. severity c = ''error'' \<or> severity c = ''warning'' \<or> severity c = ''info'') (checks r)"
proof -
  assume v: "validate_skill d strict = Inr r"
  then obtain n p where r: "r = build_report n p strict (checks r)"
    using validate_skill_is_build_report by blast
  have sev: "list_all sev_ok (checks r)"
    using v by (rule validate_skill_sev)
  have s: "summary r =
      \<lparr>total_checks = length (checks r), passed_count = length (filter passed (checks r)),
       errors = length (failed_with ''error'' (checks r)),
       warnings = length (failed_with ''warning'' (checks r)),
       info = length (failed_with ''info'' (checks r))\<rparr>"
    by (subst r) (simp add: build_report_def Let_def)
  show ?thesis
    using partition_counts [OF sev] sev by (simp add: s sev_ok_def list_all_iff)
qed

theorem validate_skill_summary_partition_witness:
  "\<exists>r. validate_skill empty_skill_dir False = Inr r \<and>
       passed_count (summary r) + errors (summary r) + warnings (summary r) + info (summary r)
         = total_checks (summary r) \<and>
       total_checks (summary r) = length (checks r)"
proof -
  obtain r where r: "validate_skill empty_skill_dir False = Inr r"
    using empty_dir_report by blast
  show ?thesis
    using validate_skill_summary_partition [OF r] r by blast
qed

text \<open>
  C1. A skill directory without SKILL.md gets a report with a failed
  \<^verbatim>\<open>skill_md_exists\<close> check of severity \<^verbatim>\<open>error\<close> and \<^verbatim>\<open>compatible\<close> false, in both modes,
  whenever \<^verbatim>\<open>validate_skill\<close> returns a report.
\<close>

lemma missing_skill_md_reported:
  "\<not> is_file d [''SKILL.md''] \<Longrightarrow> validate_skill d strict = Inr r \<Longrightarrow>
   (\<exists>c \<in> set (checks r). check c = ''skill_md_exists'' \<and> \<not> passed c \<and> severity c = ''error'') \<and>
   \<not> compatible r"
proof -
  assume nf: "\<not> is_file d [''SKILL.md'']" and v: "validate_skill d strict = Inr r"
  let ?c = "mk_result ''skill_md_exists'' ''claude-code'' False
              ''SKILL.md not found - required for Claude Code'' ''error''"
  have c1: "check1 d = [?c]"
    using nf by (simp add: check1_def)
  from validate_skill_Inr [OF v] obtain rest where cs: "checks r = ?c # rest"
    by (auto simp add: c1 build_report_def Let_def)
  have p: "check ?c = ''skill_md_exists'' \<and> \<not> passed ?c \<and> severity ?c = ''error''"
    by (simp add: mk_result_def)
  obtain n pth where r: "r = build_report n pth strict (checks r)"
    using validate_skill_is_build_report [OF v] by blast
  have "\<not> compatible (build_report n pth strict (checks r))"
    unfolding build_report_compatible using p by (simp add: cs)
  with r have "\<not> compatible r"
    by simp
  then show ?thesis
    using p cs by auto
qed

text \<open>
  The one input on which no report comes back: a \<^verbatim>\<open>requirements.txt\<close> that is not UTF-8.
  Check 9 catches \<^verbatim>\<open>OSError\<close> only (Checks 2 and 11 catch \<^verbatim>\<open>UnicodeDecodeError\<close> too), so
  the error leaves \<^verbatim>\<open>validate_skill\<close> before the report is built.
\<close>

theorem validate_skill_raises_on_binary_requirements:
  "\<not> is_file binary_requirements_dir [''SKILL.md''] \<and>
   (\<forall>strict. \<exists>e. validate_skill binary_requirements_dir strict = Inl (UnicodeDecodeError e))"
  by (simp add: binary_requirements_dir_def is_file_def validate_skill_def check9_def Let_def)

section \<open>Properties of analyze_claudemd\<close>

lemma rec_category_mk [simp]: "rec_category (mk_rec p c m) = c"
  by (simp add: mk_rec_def)

lemma missing_recs_category:
  "list_all (\<lambda>r. rec_category r = ''completeness'') (missing_recs importance p intro cks)"
  by (simp add: missing_recs_def list_all_iff)

lemma redundancy_recs_category:
  "list_all (\<lambda>r. rec_category r = ''redundancy'') (redundancy_recs reds)"
  by (simp add: redundancy_recs_def Let_def)

lemma structure_recs_category:
  "list_all (\<lambda>r. rec_category r = ''structure'') (structure_recs t secs)"
  by (simp add: structure_recs_def Let_def split: option.splits)

lemma format_recs_category:
  "list_all (\<lambda>r. rec_category r = ''format'') (format_recs t)"
  by (simp add: format_recs_def Let_def)

lemma token_budget_recs_none:
  "total_tokens \<le> limit \<Longrightarrow> 0 \<le> total_tokens \<Longrightarrow> token_budget_recs total_tokens limit = []"
  by (simp add: token_budget_recs_def)

lemma list_all_weaken:
  "list_all P xs \<Longrightarrow> (\<And>x. P x \<Longrightarrow> Q x) \<Longrightarrow> list_all Q xs"
  by (auto simp add: list_all_iff)

lemma generate_recommendations_no_token_budget:
  assumes "int (estimate_tokens t) \<le> limit"
  shows "list_all (\<lambda>r. rec_category r \<noteq> ''token_budget'')
           (generate_recommendations t secs cks reds hier limit)"
proof -
  have a: "list_all (\<lambda>r. rec_category r \<noteq> ''token_budget'') (missing_recs importance p intro cks)"
    for importance p intro
    by (rule list_all_weaken [OF missing_recs_category]) simp
  have b: "list_all (\<lambda>r. rec_category r \<noteq> ''token_budget'') (redundancy_recs reds)"
    by (rule list_all_weaken [OF redundancy_recs_category]) simp
  have c: "list_all (\<lambda>r. rec_category r \<noteq> ''token_budget'') (structure_recs t secs)"
    by (rule list_all_weaken [OF structure_recs_category]) simp
  have d: "list_all (\<lambda>r. rec_category r \<noteq> ''token_budget'') (format_recs t)"
    by (rule list_all_weaken [OF format_recs_category]) simp
  have e: "token_budget_recs (int (estimate_tokens t)) limit = []"
    using assms by (simp add: token_budget_recs_none)
  have f: "list_all (\<lambda>r. rec_category r \<noteq> ''token_budget'')
             (map (\<lambda>s. mk_rec ''medium'' ''hierarchical_loading'' s) hier)"
    by (simp add: list_all_iff)
  show ?thesis
    unfolding generate_recommendations_def by (simp add: a b c d e f)
qed

text \<open>
  C4. For every CLAUDE.md file whose estimated token count is under the token limit,
  \<^verbatim>\<open>analyze_claudemd\<close> returns a report whose metrics field \<^verbatim>\<open>within_budget\<close> is true and
  whose recommendations hold none of category \<^verbatim>\<open>token_budget\<close>. It holds whatever
  \<^verbatim>\<open>detect_redundancy\<close> reports.
\<close>

theorem analyze_claudemd_under_limit:
  "int (estimate_tokens t) < limit \<Longrightarrow>
   \<exists>a. analyze_claudemd detect (Is_file (Text t)) file_path resolved limit = Inr (Success a) \<and>
       within_budget (metrics a) \<and>
       token_estimate (metrics a) = estimate_tokens t \<and>
       list_all (\<lambda>r. rec_category r \<noteq> ''token_budget'') (recommendations a)"
  by (simp add: analyze_claudemd_def Let_def generate_recommendations_no_token_budget)

theorem analyze_claudemd_under_limit_witness:
  "int (estimate_tokens ''# Project'') < 6000 \<and>
   (\<exists>a. analyze_claudemd (\<lambda>t. []) (Is_file (Text ''# Project'')) ''CLAUDE.md'' ''/repo/CLAUDE.md'' 6000
          = Inr (Success a) \<and>
        within_budget (metrics a) \<and>
        list_all (\<lambda>r. rec_category r \<noteq> ''token_budget'') (recommendations a))"
proof -
  have h: "int (estimate_tokens ''# Project'') < 6000"
    by (simp add: estimate_tokens_def)
  show ?thesis
    using h analyze_claudemd_under_limit [OF h, of "\<lambda>t. []" "''CLAUDE.md''" "''/repo/CLAUDE.md''"]
    by blast
qed

section \<open>Properties of the file system operations\<close>

lemma step_Inr [simp]: "step (Inr s1) s0 k = k s1"
  by (simp add: step_def)

lemma step_Inl [simp]: "step (Inl e) s0 k = (Inl e, s0)"
  by (simp add: step_def)

lemma is_ffile_simps [simp]:
  "is_ffile None = False" "is_ffile (Some FDir) = False" "is_ffile (Some (FFile c)) = True"
  by (simp_all add: is_ffile_def)

lemma not_prefix_snoc_self [simp]: "\<not> prefix (t @ [a]) t"
  by (auto simp add: prefix_def)

lemma mkdir_parents_ok:
  "list_all (\<lambda>q. \<not> is_ffile (fs q)) (prefixes p) \<Longrightarrow>
   mkdir_parents fs p = Inr (\<lambda>q. if prefix q p then Some FDir else fs q)"
  by (auto simp add: mkdir_parents_def list_all_iff list_ex_iff)


lemma write_text_ok:
  "p \<noteq> [] \<Longrightarrow> fs p \<noteq> Some FDir \<Longrightarrow> fs (butlast p) = Some FDir \<Longrightarrow>
   write_text fs p c = Inr (fs(p \<mapsto> FFile c))"
  by (simp add: write_text_def)


lemma rmtree_Inr:
  "rmtree fs p = Inr fs' \<Longrightarrow> fs' = (\<lambda>q. if prefix p q then None else fs q)"
  by (auto simp add: rmtree_def split: option.splits fnode.splits)


section \<open>Properties of create_skill_directory\<close>

text \<open>
  Scaffolding into an existing output directory under which the skill's path is free:
  the call succeeds, changes nothing outside the skill's directory, and the files under
  it are the four it lists.
\<close>

lemma scaffold_general:
  assumes dirs: "list_all (\<lambda>q. fs q = Some FDir) (prefixes out)"
    and fresh: "\<forall>q. prefix (out @ [name]) q \<longrightarrow> fs q = None"
  shows "\<exists>fs'. create_skill_directory tpl today fs name domain description version license_type category0 out =
     (Inr (Scaffold_ok
        \<lparr>created_path = out @ [name], created_name = name, created_domain = domain,
         created_version = version,
         directories_created = [out @ [name, ''scripts''], out @ [name, ''references''], out @ [name, ''assets'']],
         files_created = [out @ [name, ''SKILL.md''], out @ [name, ''scripts'', replace_hyphens name @ ''_tool.py''],
            out @ [name, ''references'', ''guide.md''], out @ [name, ''assets'', ''.gitkeep'']]\<rparr>), fs') \<and>
     (\<forall>q. \<not> prefix (out @ [name]) q \<longrightarrow> fs' q = fs q) \<and>
     (\<forall>q. prefix (out @ [name]) q \<longrightarrow>
        (is_ffile (fs' q) \<longleftrightarrow>
           q \<in> {out @ [name, ''SKILL.md''], out @ [name, ''scripts'', replace_hyphens name @ ''_tool.py''],
                out @ [name, ''references'', ''guide.md''], out @ [name, ''assets'', ''.gitkeep'']}))"
proof -
  have d: "fs q = Some FDir" if "prefix q out" for q
    using dirs that by (auto simp add: list_all_iff)
  have sp: "fs (out @ [name]) = None"
    using fresh by simp
  have under: "fs (out @ name # r) = None" for r
    using fresh by (metis append.assoc append_Cons append_Nil prefixI)
  define fs1 where "fs1 = (\<lambda>q. if prefix q (out @ [name, ''scripts'']) then Some FDir else fs q)"
  define fs2 where "fs2 = (\<lambda>q. if prefix q (out @ [name, ''references'']) then Some FDir else fs1 q)"
  define fs3 where "fs3 = (\<lambda>q. if prefix q (out @ [name, ''assets'']) then Some FDir else fs2 q)"
  have pre2: "prefix q (out @ [name, a]) \<longleftrightarrow> prefix q out \<or> q = out @ [name] \<or> q = out @ [name, a]" for q a
    using prefix_snoc [of q "out @ [name]" a] prefix_snoc [of q out name] by auto
  have m1: "mkdir_parents fs (out @ [name, ''scripts'']) = Inr fs1"
    unfolding fs1_def
    by (rule mkdir_parents_ok) (auto simp add: list_all_iff pre2 d sp under)
  have m2: "mkdir_parents fs1 (out @ [name, ''references'']) = Inr fs2"
    unfolding fs2_def
    by (rule mkdir_parents_ok) (auto simp add: list_all_iff pre2 d sp under fs1_def)
  have m3: "mkdir_parents fs2 (out @ [name, ''assets'']) = Inr fs3"
    unfolding fs3_def
    by (rule mkdir_parents_ok) (auto simp add: list_all_iff pre2 d sp under fs1_def fs2_def)
  let ?md = "out @ [name, ''SKILL.md'']"
  let ?script = "out @ [name, ''scripts'', replace_hyphens name @ ''_tool.py'']"
  let ?ref = "out @ [name, ''references'', ''guide.md'']"
  let ?keep = "out @ [name, ''assets'', ''.gitkeep'']"
  have bl2: "butlast (out @ [name, a]) = out @ [name]" for a
    by (simp add: butlast_append)
  have bl3: "butlast (out @ [name, a, b]) = out @ [name, a]" for a b
    by (simp add: butlast_append)
  have w1: "write_text fs3 ?md c = Inr (fs3(?md \<mapsto> FFile c))" for c
    by (rule write_text_ok) (auto simp add: bl2 fs3_def fs2_def fs1_def pre2 under)
  have w2: "write_text (fs3(?md \<mapsto> FFile c1)) ?script c = Inr (fs3(?md \<mapsto> FFile c1, ?script \<mapsto> FFile c))"
    for c c1
    by (rule write_text_ok) (auto simp add: bl3 fs3_def fs2_def fs1_def pre2 under)
  have w3: "write_text (fs3(?md \<mapsto> FFile c1, ?script \<mapsto> FFile c2)) ?ref c =
      Inr (fs3(?md \<mapsto> FFile c1, ?script \<mapsto> FFile c2, ?ref \<mapsto> FFile c))" for c c1 c2
    by (rule write_text_ok) (auto simp add: bl3 fs3_def fs2_def fs1_def pre2 under)
  have w4: "write_text (fs3(?md \<mapsto> FFile c1, ?script \<mapsto> FFile c2, ?ref \<mapsto> FFile c3)) ?keep c =
      Inr (fs3(?md \<mapsto> FFile c1, ?script \<mapsto> FFile c2, ?ref \<mapsto> FFile c3, ?keep \<mapsto> FFile c))"
    for c c1 c2 c3
    by (rule write_text_ok) (auto simp add: bl3 fs3_def fs2_def fs1_def pre2 under)
  have ne: "\<not> path_exists fs (out @ [name])"
    by (simp add: path_exists_def sp)
  define title where "title = to_title_case name"
  define category where "category = (if category0 = [] then domain else category0)"
  define c1 where "c1 = SKILL_MD_TEMPLATE tpl
              [(''name'', name), (''description'', description), (''license'', license_type),
               (''version'', version), (''category'', category), (''domain'', domain),
               (''title'', title),
               (''summary'', title @ '' skill with automation tools and reference guides.''),
               (''keywords'', join_with '', '' (split_char CHR ''-'' name @ [domain, category])),
               (''date'', today)]"
  define c2 where "c2 = SCRIPT_TEMPLATE tpl
              [(''title'', title @ '' Tool''), (''description'', ''Automation tool for '' @ lower title),
               (''filename'', replace_hyphens name @ ''_tool.py'')]"
  define c3 where "c3 = REFERENCE_TEMPLATE tpl
              [(''title'', title @ '' Guide''), (''topic'', lower title), (''date'', today)]"
  let ?fs' = "fs3(?md \<mapsto> FFile c1, ?script \<mapsto> FFile c2, ?ref \<mapsto> FFile c3, ?keep \<mapsto> FFile [])"
  have run:
    "create_skill_directory tpl today fs name domain description version license_type category0 out =
     (Inr (Scaffold_ok
        \<lparr>created_path = out @ [name], created_name = name, created_domain = domain,
         created_version = version,
         directories_created = [out @ [name, ''scripts''], out @ [name, ''references''], out @ [name, ''assets'']],
         files_created = [?md, ?script, ?ref, ?keep]\<rparr>), ?fs')"
    unfolding create_skill_directory_def Let_def
    by (simp only: ne if_False append_Cons append_Nil append_assoc m1 m2 m3 step_Inr w1 w2 w3 w4
          c1_def c2_def c3_def title_def category_def)
  have outside: "fs3 q = fs q" if "\<not> prefix (out @ [name]) q" for q
    using that by (auto simp add: fs3_def fs2_def fs1_def pre2 d)
  have inside: "\<not> is_ffile (fs3 q)" if "prefix (out @ [name]) q" for q
  proof -
    from that obtain r where "q = out @ name # r"
      by (auto simp add: prefix_def)
    then show ?thesis
      by (auto simp add: fs3_def fs2_def fs1_def under)
  qed
  have pmd: "prefix (out @ [name]) ?md" "prefix (out @ [name]) ?script"
    "prefix (out @ [name]) ?ref" "prefix (out @ [name]) ?keep"
    by (simp_all add: prefix_def)
  have o: "?fs' q = fs q" if "\<not> prefix (out @ [name]) q" for q
  proof -
    have "q \<noteq> ?md" "q \<noteq> ?script" "q \<noteq> ?ref" "q \<noteq> ?keep"
      using that pmd by auto
    then show ?thesis
      using outside [OF that] by simp
  qed
  have i: "is_ffile (?fs' q) \<longleftrightarrow> q \<in> {?md, ?script, ?ref, ?keep}" if "prefix (out @ [name]) q" for q
    using inside [OF that] by simp
  from run o i show ?thesis
    by blast
qed

lemma scaffold_existing:
  "path_exists fs (out @ [name]) \<Longrightarrow>
   create_skill_directory tpl today fs name domain description version license_type category0 out =
     (Inr (Scaffold_failed (''Directory already exists: '' @ join_path (out @ [name])) (out @ [name])), fs)"
  by (simp add: create_skill_directory_def Let_def)

lemma foo_bar_script_name: "replace_hyphens ''foo-bar'' @ ''_tool.py'' = ''foo_bar_tool.py''"
  by (simp add: replace_hyphens_def)

text \<open>
  C5. Scaffolding a skill named \<^verbatim>\<open>foo-bar\<close> into an output directory (the directory and
  its ancestors exist) under which nothing named \<^verbatim>\<open>foo-bar\<close> exists yet returns success,
  and the files under \<^verbatim>\<open>foo-bar\<close> are then exactly \<^verbatim>\<open>SKILL.md\<close>,
  \<^verbatim>\<open>scripts/foo_bar_tool.py\<close>, \<^verbatim>\<open>references/guide.md\<close> and \<^verbatim>\<open>assets/.gitkeep\<close>, with nothing
  changed elsewhere. If \<^verbatim>\<open>foo-bar\<close> exists already, the call returns the failure with its
  error message and leaves the file system as it was.
\<close>

theorem scaffold_foo_bar:
  "(list_all (\<lambda>q. fs q = Some FDir) (prefixes out) \<and>
    (\<forall>q. prefix (out @ [''foo-bar'']) q \<longrightarrow> fs q = None) \<longrightarrow>
      (\<exists>c fs'. create_skill_directory tpl today fs ''foo-bar'' domain description version license_type
                 category0 out = (Inr (Scaffold_ok c), fs') \<and>
         files_created c =
           [out @ [''foo-bar'', ''SKILL.md''], out @ [''foo-bar'', ''scripts'', ''foo_bar_tool.py''],
            out @ [''foo-bar'', ''references'', ''guide.md''], out @ [''foo-bar'', ''assets'', ''.gitkeep'']] \<and>
         (\<forall>q. \<not> prefix (out @ [''foo-bar'']) q \<longrightarrow> fs' q = fs q) \<and>
         (\<forall>q. prefix (out @ [''foo-bar'']) q \<longrightarrow>
            (is_ffile (fs' q) \<longleftrightarrow>
               q \<in> {out @ [''foo-bar'', ''SKILL.md''], out @ [''foo-bar'', ''scripts'', ''foo_bar_tool.py''],
                    out @ [''foo-bar'', ''references'', ''guide.md''],
                    out @ [''foo-bar'', ''assets'', ''.gitkeep'']})))) \<and>
   (path_exists fs (out @ [''foo-bar'']) \<longrightarrow>
      (\<exists>msg. create_skill_directory tpl today fs ''foo-bar'' domain description version license_type
                category0 out = (Inr (Scaffold_failed msg (out @ [''foo-bar''])), fs)))"
proof (intro conjI impI)
  assume h: "list_all (\<lambda>q. fs q = Some FDir) (prefixes out) \<and>
    (\<forall>q. prefix (out @ [''foo-bar'']) q \<longrightarrow> fs q = None)"
  then have dirs: "list_all (\<lambda>q. fs q = Some FDir) (prefixes out)"
    and fresh: "\<forall>q. prefix (out @ [''foo-bar'']) q \<longrightarrow> fs q = None"
    by simp_all
  from scaffold_general [OF dirs fresh, of tpl today domain description version license_type category0]
  obtain fs' where
    run: "create_skill_directory tpl today fs ''foo-bar'' domain description version license_type category0 out =
      (Inr (Scaffold_ok
        \<lparr>created_path = out @ [''foo-bar''], created_name = ''foo-bar'', created_domain = domain,
         created_version = version,
         directories_created = [out @ [''foo-bar'', ''scripts''], out @ [''foo-bar'', ''references''],
            out @ [''foo-bar'', ''assets'']],
         files_created = [out @ [''foo-bar'', ''SKILL.md''], out @ [''foo-bar'', ''scripts'', ''foo_bar_tool.py''],
            out @ [''foo-bar'', ''references'', ''guide.md''], out @ [''foo-bar'', ''assets'', ''.gitkeep'']]\<rparr>), fs')"
    and o: "\<forall>q. \<not> prefix (out @ [''foo-bar'']) q \<longrightarrow> fs' q = fs q"
    and i: "\<forall>q. prefix (out @ [''foo-bar'']) q \<longrightarrow>
        (is_ffile (fs' q) \<longleftrightarrow>
           q \<in> {out @ [''foo-bar'', ''SKILL.md''], out @ [''foo-bar'', ''scripts'', ''foo_bar_tool.py''],
                out @ [''foo-bar'', ''references'', ''guide.md''], out @ [''foo-bar'', ''assets'', ''.gitkeep'']})"
    unfolding foo_bar_script_name by blast
  show "\<exists>c fs'. create_skill_directory tpl today fs ''foo-bar'' domain description version license_type
                 category0 out = (Inr (Scaffold_ok c), fs') \<and>
         files_created c =
           [out @ [''foo-bar'', ''SKILL.md''], out @ [''foo-bar'', ''scripts'', ''foo_bar_tool.py''],
            out @ [''foo-bar'', ''references'', ''guide.md''], out @ [''foo-bar'', ''assets'', ''.gitkeep'']] \<and>
         (\<forall>q. \<not> prefix (out @ [''foo-bar'']) q \<longrightarrow> fs' q = fs q) \<and>
         (\<forall>q. prefix (out @ [''foo-bar'']) q \<longrightarrow>
            (is_ffile (fs' q) \<longleftrightarrow>
               q \<in> {out @ [''foo-bar'', ''SKILL.md''], out @ [''foo-bar'', ''scripts'', ''foo_bar_tool.py''],
                    out @ [''foo-bar'', ''references'', ''guide.md''],
                    out @ [''foo-bar'', ''assets'', ''.gitkeep'']}))"
    apply (rule exI, rule exI [of _ fs'])
    apply (intro conjI)
       apply (rule run)
      apply simp
     apply (rule o)
    apply (rule i)
    done
next
  assume "path_exists fs (out @ [''foo-bar''])"
  then show "\<exists>msg. create_skill_directory tpl today fs ''foo-bar'' domain description version license_type
                category0 out = (Inr (Scaffold_failed msg (out @ [''foo-bar''])), fs)"
    using scaffold_existing by blast
qed

lemma example_out_dirs: "list_all (\<lambda>q. example_out_fs q = Some FDir) (prefixes [''skills''])"
  by (simp add: example_out_fs_def)

lemma example_out_fresh: "\<forall>q. prefix ([''skills''] @ [''foo-bar'']) q \<longrightarrow> example_out_fs q = None"
  by (auto simp add: example_out_fs_def)

lemma example_out_taken: "path_exists example_out_fs_taken ([''skills''] @ [''foo-bar''])"
  by (simp add: example_out_fs_taken_def path_exists_def)

theorem scaffold_foo_bar_witness:
  "(\<exists>c fs'. create_skill_directory source_templates ''May 2025'' example_out_fs ''foo-bar''
              ''engineering'' ''Demo'' ''1.0.0'' ''MIT'' [] [''skills''] = (Inr (Scaffold_ok c), fs') \<and>
      files_created c =
        [[''skills'', ''foo-bar'', ''SKILL.md''], [''skills'', ''foo-bar'', ''scripts'', ''foo_bar_tool.py''],
         [''skills'', ''foo-bar'', ''references'', ''guide.md''],
         [''skills'', ''foo-bar'', ''assets'', ''.gitkeep'']] \<and>
      is_ffile (fs' [''skills'', ''foo-bar'', ''SKILL.md'']) \<and>
      \<not> is_ffile (fs' [''skills'', ''foo-bar'', ''README.md''])) \<and>
   (\<exists>msg. create_skill_directory source_templates ''May 2025'' example_out_fs_taken ''foo-bar''
              ''engineering'' ''Demo'' ''1.0.0'' ''MIT'' [] [''skills'']
            = (Inr (Scaffold_failed msg [''skills'', ''foo-bar'']), example_out_fs_taken))"
proof -
  from scaffold_foo_bar [of example_out_fs "[''skills'']" source_templates "''May 2025''"
      "''engineering''" "''Demo''" "''1.0.0''" "''MIT''" "[]"]
    example_out_dirs example_out_fresh
  obtain c fs' where
    r: "create_skill_directory source_templates ''May 2025'' example_out_fs ''foo-bar''
              ''engineering'' ''Demo'' ''1.0.0'' ''MIT'' [] [''skills''] = (Inr (Scaffold_ok c), fs')"
    and f: "files_created c =
        [[''skills''] @ [''foo-bar'', ''SKILL.md''], [''skills''] @ [''foo-bar'', ''scripts'', ''foo_bar_tool.py''],
         [''skills''] @ [''foo-bar'', ''references'', ''guide.md''],
         [''skills''] @ [''foo-bar'', ''assets'', ''.gitkeep'']]"
    and i: "\<forall>q. prefix ([''skills''] @ [''foo-bar'']) q \<longrightarrow>
            (is_ffile (fs' q) \<longleftrightarrow>
               q \<in> {[''skills''] @ [''foo-bar'', ''SKILL.md''],
                    [''skills''] @ [''foo-bar'', ''scripts'', ''foo_bar_tool.py''],
                    [''skills''] @ [''foo-bar'', ''references'', ''guide.md''],
                    [''skills''] @ [''foo-bar'', ''assets'', ''.gitkeep'']})"
    by blast
  have a: "is_ffile (fs' [''skills'', ''foo-bar'', ''SKILL.md''])"
    using i [rule_format, of "[''skills'', ''foo-bar'', ''SKILL.md'']"] by simp
  have b: "\<not> is_ffile (fs' [''skills'', ''foo-bar'', ''README.md''])"
    using i [rule_format, of "[''skills'', ''foo-bar'', ''README.md'']"] by simp
  from scaffold_foo_bar [of example_out_fs_taken "[''skills'']" source_templates "''May 2025''"
      "''engineering''" "''Demo''" "''1.0.0''" "''MIT''" "[]"] example_out_taken
  obtain msg where
    t: "create_skill_directory source_templates ''May 2025'' example_out_fs_taken ''foo-bar''
              ''engineering'' ''Demo'' ''1.0.0'' ''MIT'' [] [''skills'']
            = (Inr (Scaffold_failed msg ([''skills''] @ [''foo-bar''])), example_out_fs_taken)"
    by blast
  from r f a b t show ?thesis
    by auto
qed

section \<open>Properties of the installer\<close>


text \<open>Every path \<^verbatim>\<open>discover_skills\<close> stores is the group followed by the skill.\<close>

lemma set_update_subset: "set (AList.update k v al) \<subseteq> insert (k, v) (set al)"
  by (induction al) auto

lemma discover_step_paths_ok:
  assumes "paths_ok sk"
  shows "paths_ok (discover_step sk parts)"
proof (cases "''assets'' \<in> set parts \<or> ''node_modules'' \<in> set parts \<or> ''.git'' \<in> set parts \<or> length parts < 2")
  case True
  then show ?thesis
    using assms by (auto simp add: discover_step_def)
next
  case False
  define grp where "grp = parts ! 0"
  define skill where "skill = parts ! 1"
  define group_skills where "group_skills = (case map_of sk grp of None \<Rightarrow> [] | Some g \<Rightarrow> g)"
  have ds: "discover_step sk parts = AList.update grp (AList.update skill [grp, skill] group_skills) sk"
    using False by (simp add: discover_step_def Let_def grp_def skill_def group_skills_def)
  have gs: "p = [grp, s]" if "(s, p) \<in> set group_skills" for s p
  proof (cases "map_of sk grp")
    case None
    with that show ?thesis by (simp add: group_skills_def)
  next
    case (Some g)
    then have "(grp, g) \<in> set sk" by (rule map_of_SomeD)
    moreover have "(s, p) \<in> set g" using that Some by (simp add: group_skills_def)
    ultimately show ?thesis using assms by (auto simp add: paths_ok_def)
  qed
  have new: "p = [grp, s]" if "(s, p) \<in> set (AList.update skill [grp, skill] group_skills)" for s p
    using that set_update_subset [of skill "[grp, skill]" group_skills] gs by auto
  show ?thesis
    unfolding ds paths_ok_def
  proof (intro allI impI)
    fix g gs' s p
    assume a: "(g, gs') \<in> set (AList.update grp (AList.update skill [grp, skill] group_skills) sk)"
      and b: "(s, p) \<in> set gs'"
    from a set_update_subset [of grp "AList.update skill [grp, skill] group_skills" sk]
    have "(g, gs') = (grp, AList.update skill [grp, skill] group_skills) \<or> (g, gs') \<in> set sk"
      by auto
    then show "p = [g, s]"
      using new b assms by (auto simp add: paths_ok_def)
  qed
qed

lemma discover_skills_paths_ok: "paths_ok (discover_skills mds)"
proof -
  have "paths_ok (foldl discover_step sk mds)" if "paths_ok sk" for sk
    using that by (induction mds arbitrary: sk) (simp_all add: discover_step_paths_ok)
  moreover have "paths_ok []"
    by (simp add: paths_ok_def)
  ultimately show ?thesis
    by (simp add: discover_skills_def)
qed

lemma find_skill_Some:
  "find_skill sk name = Some (g, p) \<Longrightarrow> \<exists>gs. (g, gs) \<in> set sk \<and> (name, p) \<in> set gs"
  by (induction sk name rule: find_skill.induct) (auto split: option.splits dest: map_of_SomeD)

lemma found_path:
  "find_skill (discover_skills mds) name = Some (g, p) \<Longrightarrow> p = [g, name]"
  using find_skill_Some [of "discover_skills mds" name g p] discover_skills_paths_ok [of mds]
  by (auto simp add: paths_ok_def)




lemma example_target:
  "get_target_dir (home_dir example_env) (work_dir example_env) (agent_or_default (agent_arg example_args))
     = [''work'', ''.skills'']"
  by (simp add: get_target_dir_def AGENT_DIRS_def example_env_def example_args_def agent_or_default_def
        truthy_def DEFAULT_AGENT_def)

lemma example_found:
  "find_skill (discover_skills example_skill_mds) ''alpha'' = Some (''engineering'', [''engineering'', ''alpha''])"
  by (simp add: discover_skills_def example_skill_mds_def discover_step_def Let_def)





text \<open>
  C10. An install without \<^verbatim>\<open>--force\<close> of a skill found in a group of which the manifest
  records another installed skill exits with status 1, and the file system it leaves is
  the one it found: nothing was copied, and the manifest and the target directory are
  unchanged.
\<close>

theorem install_conflict_exits:
  "\<not> force_arg args \<Longrightarrow>
   find_skill (discover_skills skill_mds) (skill_name_arg args) = Some (found_group, found_path) \<Longrightarrow>
   (other, e) \<in> set (installed (load_manifest fs
       (get_target_dir (home_dir env) (work_dir env) (agent_or_default (agent_arg args))))) \<Longrightarrow>
   entry_group e = found_group \<Longrightarrow> other \<noteq> skill_name_arg args \<Longrightarrow>
   cmd_install env skill_mds now args fs = (Inr (Exited 1), fs)"
proof -
  assume nf: "\<not> force_arg args"
    and found: "find_skill (discover_skills skill_mds) (skill_name_arg args) = Some (found_group, found_path)"
    and mem: "(other, e) \<in> set (installed (load_manifest fs
       (get_target_dir (home_dir env) (work_dir env) (agent_or_default (agent_arg args)))))"
    and grp: "entry_group e = found_group" and ne: "other \<noteq> skill_name_arg args"
  have "group_conflict (load_manifest fs
       (get_target_dir (home_dir env) (work_dir env) (agent_or_default (agent_arg args))))
       found_group (skill_name_arg args)"
    unfolding group_conflict_def list_ex_iff using mem grp ne by auto
  then show ?thesis
    using nf found by (simp add: cmd_install_def Let_def)
qed

lemma example_beta_manifest:
  "load_manifest example_fs_beta [''work'', ''.skills''] = beta_manifest"
  by (simp add: load_manifest_def example_fs_beta_def MANIFEST_FILE_def)

theorem install_conflict_exits_witness:
  "cmd_install example_env example_skill_mds ''2025-05-01T00:00:00+00:00'' example_args example_fs_beta
     = (Inr (Exited 1), example_fs_beta)"
proof -
  have f: "\<not> force_arg example_args"
    by (simp add: example_args_def)
  have n: "skill_name_arg example_args = ''alpha''"
    by (simp add: example_args_def)
  have mem: "(''beta'', \<lparr>entry_group = ''engineering'', entry_path = [''engineering'', ''beta''],
                       installed_at = ''2025-01-01T00:00:00+00:00'',
                       updated_at = ''2025-01-01T00:00:00+00:00'', entry_auto_update = False\<rparr>)
      \<in> set (installed (load_manifest example_fs_beta
           (get_target_dir (home_dir example_env) (work_dir example_env)
              (agent_or_default (agent_arg example_args)))))"
    by (simp add: example_target example_beta_manifest beta_manifest_def)
  show ?thesis
    by (rule install_conflict_exits [OF f _ mem]) (simp_all add: n example_found)
qed

section \<open>Properties of analyze_workflow_file\<close>

lemma mk_finding_sel [simp]:
  "f_severity (mk_finding s c t d r e) = s"
  "f_category (mk_finding s c t d r e) = c"
  "f_title (mk_finding s c t d r e) = t"
  by (simp_all add: mk_finding_def)




























section \<open>Exit statuses\<close>







end
